theory Spec2Isabelle
  imports Complex_Main "HOL-Library.Sublist"
begin

section \<open>Python values, exceptions and builtins\<close>

text \<open>
  The program is a command-line driver: \<^verbatim>\<open>args.py\<close> builds an argparse parser and
  \<^verbatim>\<open>main.py\<close> reads the parsed namespace, loads data, computes class weights, and
  trains, saves and tests a Keras model. Values stored in the namespace are Python
  objects; the kinds that occur are strings, ints, floats, bools and \<^verbatim>\<open>None\<close>.
  Python's float is the type parameter \<open>'f\<close>: its arithmetic is supplied by a record of
  builtins, so nothing below depends on how a float rounds.
\<close>

datatype 'f pyval = PStr string | PInt int | PFloat 'f | PBool bool | PNone

text \<open>
  Exceptions are values. \<open>ArgumentError\<close> is argparse's \<^verbatim>\<open>parser.error\<close>: the usage
  message on stderr and exit status 2. \<open>Raised\<close> is any exception that comes out of a
  collaborator (data generators, weighing functions, Keras).
\<close>

datatype error =
    ArgumentError string
  | AttributeError string
  | UnboundLocalError string
  | TypeError string
  | RuntimeError string
  | AssertionError string
  | ZeroDivisionError
  | IndexError
  | Raised string

text \<open>
  The builtins of Python that the program calls and that are not part of the repository:
  \<^verbatim>\<open>int(s)\<close> and \<^verbatim>\<open>float(s)\<close> on a string (\<open>None\<close> is \<^verbatim>\<open>ValueError\<close>), the float a literal
  of the source text denotes, float multiplication, \<^verbatim>\<open>float ** int\<close> (which can raise
  \<^verbatim>\<open>ZeroDivisionError\<close> or \<^verbatim>\<open>OverflowError\<close>), the float that stores the int \<^verbatim>\<open>0\<close>, and the
  truth value of a float.
\<close>

record 'f builtins =
  py_int :: "string \<Rightarrow> int option"
  py_float :: "string \<Rightarrow> 'f option"
  float_literal :: "string \<Rightarrow> 'f"
  fmul :: "'f \<Rightarrow> 'f \<Rightarrow> 'f"
  fpow :: "'f \<Rightarrow> int \<Rightarrow> error + 'f"
  fzero :: "'f"
  float_truth :: "'f \<Rightarrow> bool"

text \<open>\<^verbatim>\<open>bool(v)\<close>, as \<^verbatim>\<open>if v:\<close> applies it.\<close>

definition truthy :: "'f builtins \<Rightarrow> 'f pyval \<Rightarrow> bool" where
  "truthy B v =
     (case v of
        PStr s \<Rightarrow> s \<noteq> []
      | PInt i \<Rightarrow> i \<noteq> 0
      | PFloat x \<Rightarrow> float_truth B x
      | PBool b \<Rightarrow> b
      | PNone \<Rightarrow> False)"

text \<open>
  \<^verbatim>\<open>str.lower\<close>, on ASCII letters (bytes outside A-Z are kept). Only a string has the
  method; any other value raises \<^verbatim>\<open>AttributeError\<close>.
\<close>

definition lower_char :: "char \<Rightarrow> char" where
  "lower_char c =
     (case map_of (zip ''ABCDEFGHIJKLMNOPQRSTUVWXYZ'' ''abcdefghijklmnopqrstuvwxyz'') c of
        Some d \<Rightarrow> d
      | None \<Rightarrow> c)"

definition py_lower :: "'f pyval \<Rightarrow> error + string" where
  "py_lower v =
     (case v of
        PStr s \<Rightarrow> Inr (map lower_char s)
      | _ \<Rightarrow> Inl (AttributeError ''lower''))"

section \<open>args.py: the argument parser\<close>

text \<open>
  One \<^verbatim>\<open>add_argument\<close> call: the option strings, the attribute it sets (\<open>dest\<close>, the
  first long option without its dashes), the \<^verbatim>\<open>type=\<close> conversion (\<open>NoType\<close> when the
  call gives none: the raw string is kept), the \<^verbatim>\<open>choices=\<close> list when given, and the
  default.
\<close>

datatype arg_type = NoType | IntType | FloatType | StrType | BoolType

record 'f argument =
  option_strings :: "string list"
  dest :: string
  arg_type :: arg_type
  choices :: "'f pyval list option"
  default_value :: "'f pyval"

type_synonym 'f namespace = "string \<rightharpoonup> 'f pyval"

text \<open>
  The \<^verbatim>\<open>type=\<close> conversion of one argument string. \<^verbatim>\<open>type=bool\<close> calls \<^verbatim>\<open>bool(s)\<close>, which
  is true exactly for a non-empty string.
\<close>

definition get_value :: "'f builtins \<Rightarrow> arg_type \<Rightarrow> string \<Rightarrow> 'f pyval option" where
  "get_value B t s =
     (case t of
        NoType \<Rightarrow> Some (PStr s)
      | StrType \<Rightarrow> Some (PStr s)
      | IntType \<Rightarrow> map_option PInt (py_int B s)
      | FloatType \<Rightarrow> map_option PFloat (py_float B s)
      | BoolType \<Rightarrow> Some (PBool (s \<noteq> [])))"

fun find_action :: "'f argument list \<Rightarrow> string \<Rightarrow> 'f argument option" where
  "find_action [] opt = None"
| "find_action (a # as) opt =
     (if opt \<in> set (option_strings a) then Some a else find_action as opt)"

text \<open>
  The command line is read as the list of its option occurrences, each an option string
  with the one argument string that follows it (every option of this parser takes
  exactly one). An occurrence is converted, checked against \<open>choices\<close> (the converted
  value must be equal to a member of the list, so a string is never equal to an int), and
  stored. An unknown option string, a failed conversion and a value outside \<open>choices\<close>
  each end in \<^verbatim>\<open>parser.error\<close>. How argparse splits the raw words into occurrences
  (\<^verbatim>\<open>--opt=value\<close>, unambiguous prefixes of a long option, \<^verbatim>\<open>-h\<close>) is its own business and
  is not modelled: an occurrence names its option by one of the declared option strings.
\<close>

definition take_action ::
  "'f builtins \<Rightarrow> 'f argument list \<Rightarrow> 'f namespace \<Rightarrow> string \<times> string \<Rightarrow> error + 'f namespace"
where
  "take_action B parser ns occ =
     (case find_action parser (fst occ) of
        None \<Rightarrow> Inl (ArgumentError (''unrecognized arguments: '' @ fst occ))
      | Some a \<Rightarrow>
          (case get_value B (arg_type a) (snd occ) of
             None \<Rightarrow> Inl (ArgumentError (''argument '' @ fst occ @ '': invalid value''))
           | Some v \<Rightarrow>
               (case choices a of
                  None \<Rightarrow> Inr (ns(dest a \<mapsto> v))
                | Some cs \<Rightarrow>
                    if v \<in> set cs then Inr (ns(dest a \<mapsto> v))
                    else Inl (ArgumentError (''argument '' @ fst occ @ '': invalid choice'')))))"

fun consume ::
  "'f builtins \<Rightarrow> 'f argument list \<Rightarrow> 'f namespace \<Rightarrow> (string \<times> string) list \<Rightarrow> error + 'f namespace"
where
  "consume B parser ns [] = Inr ns"
| "consume B parser ns (occ # rest) =
     (case take_action B parser ns occ of
        Inl e \<Rightarrow> Inl e
      | Inr ns' \<Rightarrow> consume B parser ns' rest)"

text \<open>
  Every attribute starts at its default (of the first argument that names it). A default
  is stored as it is: it is not checked against \<open>choices\<close>, and the string defaults of
  this parser belong to arguments whose conversion keeps a string unchanged.
\<close>

definition defaults :: "'f argument list \<Rightarrow> 'f namespace" where
  "defaults parser = map_of (map (\<lambda>a. (dest a, default_value a)) parser)"

definition parse_args ::
  "'f builtins \<Rightarrow> 'f argument list \<Rightarrow> (string \<times> string) list \<Rightarrow> error + 'f namespace"
where
  "parse_args B parser argv = consume B parser (defaults parser) argv"

text \<open>The fourteen arguments of \<^verbatim>\<open>get_arguments\<close>, in the order of the source.\<close>

definition parser_arguments :: "'f builtins \<Rightarrow> 'f argument list" where
  "parser_arguments B =
    [\<lparr>option_strings = [''--mode'', ''-m''], dest = ''mode'', arg_type = NoType,
        choices = Some [PStr ''train''], default_value = PStr ''train''\<rparr>,
     \<lparr>option_strings = [''--batch_size'', ''-b''], dest = ''batch_size'', arg_type = IntType,
        choices = None, default_value = PInt 10\<rparr>,
     \<lparr>option_strings = [''--epochs''], dest = ''epochs'', arg_type = IntType,
        choices = None, default_value = PInt 300\<rparr>,
     \<lparr>option_strings = [''--learning_rate'', ''-lr''], dest = ''learning_rate'',
        arg_type = FloatType, choices = None,
        default_value = PFloat (float_literal B ''5e-4'')\<rparr>,
     \<lparr>option_strings = [''--lr_decay''], dest = ''lr_decay'', arg_type = FloatType,
        choices = None, default_value = PFloat (float_literal B ''0.1'')\<rparr>,
     \<lparr>option_strings = [''--lr_decay_epochs''], dest = ''lr_decay_epochs'',
        arg_type = IntType, choices = None, default_value = PInt 100\<rparr>,
     \<lparr>option_strings = [''--dataset''], dest = ''dataset'', arg_type = NoType,
        choices = Some [PStr ''camvid''], default_value = PStr ''camvid''\<rparr>,
     \<lparr>option_strings = [''--dataset_dir''], dest = ''dataset_dir'', arg_type = StrType,
        choices = None, default_value = PStr ''data/CamVid''\<rparr>,
     \<lparr>option_strings = [''--weighing''], dest = ''weighing'', arg_type = NoType,
        choices = Some [PStr ''enet'', PStr ''mfb'', PStr ''none''],
        default_value = PStr ''ENet''\<rparr>,
     \<lparr>option_strings = [''--ignore_unlabelled''], dest = ''ignore_unlabelled'',
        arg_type = BoolType, choices = None, default_value = PBool True\<rparr>,
     \<lparr>option_strings = [''--workers''], dest = ''workers'', arg_type = IntType,
        choices = None, default_value = PInt 4\<rparr>,
     \<lparr>option_strings = [''--verbose''], dest = ''verbose'', arg_type = NoType,
        choices = Some [PInt 0, PInt 1, PInt 2], default_value = PInt 1\<rparr>,
     \<lparr>option_strings = [''--name''], dest = ''name'', arg_type = StrType,
        choices = None, default_value = PStr ''LinkNet''\<rparr>,
     \<lparr>option_strings = [''--save_dir''], dest = ''save_dir'', arg_type = StrType,
        choices = None, default_value = PStr ''checkpoints''\<rparr>]"

definition get_arguments :: "'f builtins \<Rightarrow> (string \<times> string) list \<Rightarrow> error + 'f namespace" where
  "get_arguments B argv = parse_args B (parser_arguments B) argv"

text \<open>Attribute access \<^verbatim>\<open>args.a\<close> on the namespace.\<close>

definition getattr :: "'f namespace \<Rightarrow> string \<Rightarrow> error + 'f pyval" where
  "getattr ns a = (case ns a of None \<Rightarrow> Inl (AttributeError a) | Some v \<Rightarrow> Inr v)"

section \<open>Collaborators and observable events\<close>

text \<open>
  The parts of the repository and of Keras that \<^verbatim>\<open>main.py\<close> calls and that are not in the
  sources at hand are parameters. \<open>'g\<close> is a data generator, \<open>'m\<close> a model. Each call
  returns its result or the exception it raises.
  \<^item> \<open>import_generator\<close>: \<^verbatim>\<open>from data import CamVidGenerator\<close> (or \<^verbatim>\<open>CityscapesGenerator\<close>);
  \<^item> \<open>DataGenerator\<close>: the constructor call, with the class, the dataset directory, the
    batch size and the mode;
  \<^item> \<open>first_batch\<close>: \<^verbatim>\<open>generator[0]\<close>, giving the shape of an image and the number of
    classes \<^verbatim>\<open>label_batch[0].shape[-1]\<close>;
  \<^item> \<open>enet_weighing\<close>, \<open>median_freq_balancing\<close>: the two class-weight passes;
  \<^item> \<open>load_model\<close>: Keras' loader, with the path and the names registered in
    \<^verbatim>\<open>custom_objects\<close>;
  \<^item> \<open>LinkNet\<close>: \<^verbatim>\<open>LinkNet(num_classes, input_shape=input_shape).get_model()\<close>;
  \<^item> \<open>fit_epoch\<close>: one epoch of \<^verbatim>\<open>fit_generator\<close> (all training batches, then validation
    and the remaining callbacks), run with the optimizer's current learning rate;
  \<^item> \<open>save_model\<close>: \<^verbatim>\<open>model.save(path)\<close>; \<open>evaluate_generator\<close>: the test pass.
\<close>

record ('g, 'm, 'f) collaborators =
  import_generator :: "string \<Rightarrow> error + unit"
  DataGenerator :: "string \<Rightarrow> 'f pyval \<Rightarrow> 'f pyval \<Rightarrow> string \<Rightarrow> error + 'g"
  first_batch :: "'g \<Rightarrow> error + nat list \<times> nat"
  enet_weighing :: "'g \<Rightarrow> nat \<Rightarrow> error + 'f list"
  median_freq_balancing :: "'g \<Rightarrow> nat \<Rightarrow> error + 'f list"
  load_model :: "string \<Rightarrow> string list \<Rightarrow> error + 'm"
  LinkNet :: "nat \<Rightarrow> nat list \<Rightarrow> error + 'm"
  fit_epoch :: "'m \<Rightarrow> 'f \<Rightarrow> int \<Rightarrow> 'f list option \<Rightarrow> 'g \<Rightarrow> 'g \<Rightarrow> error + 'm"
  save_model :: "'m \<Rightarrow> string \<Rightarrow> error + unit"
  evaluate_generator :: "'m \<Rightarrow> 'g \<Rightarrow> error + unit"

text \<open>
  What a run does to the outside, in order. An event is logged when the call starts, so
  a call that raises is in the log too.
  \<^item> \<open>LoadData mode\<close>: a data generator is constructed;
  \<^item> \<open>WeighingPass name\<close>: a class-weight pass over the training data starts;
  \<^item> \<open>PrintClassWeights w\<close>: line 167 prints the class weights handed to training;
  \<^item> \<open>LoadModel path names\<close>: \<^verbatim>\<open>load_model\<close> is called (resume);
  \<^item> \<open>BuildModel n\<close>: a fresh LinkNet is constructed;
  \<^item> \<open>Fit model w epochs initial_epoch\<close>: \<^verbatim>\<open>fit_generator\<close> is called;
  \<^item> \<open>SetLR epoch lr\<close>: the scheduler stores \<open>lr\<close> in the optimizer at the start of \<open>epoch\<close>;
  \<^item> \<open>Epoch epoch lr\<close>: the batches of \<open>epoch\<close> run, the optimizer holding \<open>lr\<close>;
  \<^item> \<open>Save model path\<close>: \<^verbatim>\<open>model.save(path)\<close> is called;
  \<^item> \<open>Evaluate model\<close>: the test pass starts.
\<close>

datatype ('m, 'f) event =
    LoadData string
  | WeighingPass string
  | PrintClassWeights "'f list option"
  | LoadModel string "string list"
  | BuildModel nat
  | Fit 'm "'f list option" int int
  | SetLR int 'f
  | Epoch int 'f
  | Save 'm string
  | Evaluate 'm

text \<open>An event that loads, builds, trains, saves or tests a model.\<close>

definition model_event :: "('m, 'f) event \<Rightarrow> bool" where
  "model_event ev =
     (case ev of
        LoadData _ \<Rightarrow> False
      | WeighingPass _ \<Rightarrow> False
      | PrintClassWeights _ \<Rightarrow> False
      | _ \<Rightarrow> True)"

text \<open>
  A piece of the program returns the events it caused and either its value or the
  exception that ended it. \<open>thn\<close> runs one piece after another, and stops at the first
  exception, keeping the events so far.
\<close>

type_synonym ('m, 'f, 'a) run = "('m, 'f) event list \<times> (error + 'a)"

definition ret :: "'a \<Rightarrow> ('m, 'f, 'a) run" where
  "ret a = ([], Inr a)"

definition raise :: "error \<Rightarrow> ('m, 'f, 'a) run" where
  "raise e = ([], Inl e)"

definition emit :: "('m, 'f) event \<Rightarrow> ('m, 'f, unit) run" where
  "emit ev = ([ev], Inr ())"

definition lift :: "error + 'a \<Rightarrow> ('m, 'f, 'a) run" where
  "lift r = ([], r)"

definition thn :: "('m, 'f, 'a) run \<Rightarrow> ('a \<Rightarrow> ('m, 'f, 'b) run) \<Rightarrow> ('m, 'f, 'b) run" where
  "thn m f =
     (case m of
        (t, Inl e) \<Rightarrow> (t, Inl e)
      | (t, Inr a) \<Rightarrow> (case f a of (t', r) \<Rightarrow> (t @ t', r)))"

section \<open>main.py: train\<close>

text \<open>
  The schedule \<^verbatim>\<open>_lr_decay(epoch, lr)\<close> that \<^verbatim>\<open>train\<close> hands to \<^verbatim>\<open>LearningRateScheduler\<close>:
  \<^verbatim>\<open>lr_decay**(epoch // lr_decay_epochs) * learning_rate\<close>. The floor division raises on
  a zero divisor before the power is taken; \<open>lr\<close>, the optimizer's current rate, is an
  argument that the body never reads.
\<close>

definition train_lr_decay :: "'f builtins \<Rightarrow> 'f \<Rightarrow> 'f \<Rightarrow> int \<Rightarrow> int \<Rightarrow> 'f \<Rightarrow> error + 'f" where
  "train_lr_decay B learning_rate lr_decay lr_decay_epochs epoch lr =
     (if lr_decay_epochs = 0 then Inl ZeroDivisionError
      else
        (case fpow B lr_decay (epoch div lr_decay_epochs) of
           Inl e \<Rightarrow> Inl e
         | Inr p \<Rightarrow> Inr (fmul B p learning_rate)))"

text \<open>
  Keras' \<^verbatim>\<open>fit_generator\<close> with a \<^verbatim>\<open>LearningRateScheduler\<close> among its callbacks: for each
  epoch of \<^verbatim>\<open>range(initial_epoch, epochs)\<close>, the callback's \<^verbatim>\<open>on_epoch_begin\<close> calls the
  schedule with the epoch and the optimizer's current rate and stores the result in the
  optimizer; then the epoch's batches run.
\<close>

fun fit_loop ::
  "('g, 'm, 'f) collaborators \<Rightarrow> (int \<Rightarrow> 'f \<Rightarrow> error + 'f) \<Rightarrow> 'f list option \<Rightarrow> 'g \<Rightarrow> 'g \<Rightarrow>
   int list \<Rightarrow> 'm \<Rightarrow> 'f \<Rightarrow> ('m, 'f, 'm) run"
where
  "fit_loop E schedule class_weight tg vg [] model lr = ret model"
| "fit_loop E schedule class_weight tg vg (epoch # rest) model lr =
     thn (lift (schedule epoch lr)) (\<lambda>lr'.
     thn (emit (SetLR epoch lr')) (\<lambda>_.
     thn (emit (Epoch epoch lr')) (\<lambda>_.
     thn (lift (fit_epoch E model lr' epoch class_weight tg vg)) (\<lambda>model'.
     fit_loop E schedule class_weight tg vg rest model' lr'))))"

definition fit_generator ::
  "('g, 'm, 'f) collaborators \<Rightarrow> 'm \<Rightarrow> 'f \<Rightarrow> (int \<Rightarrow> 'f \<Rightarrow> error + 'f) \<Rightarrow> 'g \<Rightarrow>
   'f list option \<Rightarrow> int \<Rightarrow> int \<Rightarrow> 'g \<Rightarrow> ('m, 'f, 'm) run"
where
  "fit_generator E model lr schedule tg class_weight epochs initial_epoch vg =
     thn (emit (Fit model class_weight epochs initial_epoch)) (\<lambda>_.
     fit_loop E schedule class_weight tg vg [initial_epoch..epochs - 1] model lr)"

text \<open>
  \<^verbatim>\<open>train\<close>. The model is the checkpoint model when one is given and a fresh LinkNet
  otherwise; it is compiled with a new \<^verbatim>\<open>Adam(learning_rate)\<close>, so the optimizer starts at
  \<open>learning_rate\<close> in both cases. \<open>workers\<close>, \<open>verbose\<close> and the TensorBoard directory are
  passed on to Keras and change nothing that is observed here.
\<close>

definition train ::
  "('g, 'm, 'f) collaborators \<Rightarrow> 'f builtins \<Rightarrow> int \<Rightarrow> int \<Rightarrow> 'g \<Rightarrow> 'g \<Rightarrow> 'f list option \<Rightarrow>
   'f \<Rightarrow> 'f \<Rightarrow> int \<Rightarrow> 'f pyval \<Rightarrow> 'f pyval \<Rightarrow> string \<Rightarrow> 'm option \<Rightarrow> ('m, 'f, 'm) run"
where
  "train E B epochs initial_epoch train_generator val_generator class_weights
     learning_rate lr_decay lr_decay_epochs workers verbose tensorboard_logdir checkpoint_model =
     thn (lift (first_batch E train_generator)) (\<lambda>batch.
     thn (case checkpoint_model of
            None \<Rightarrow>
              thn (emit (BuildModel (snd batch))) (\<lambda>_.
              lift (LinkNet E (snd batch) (fst batch)))
          | Some m \<Rightarrow> ret m) (\<lambda>model.
     fit_generator E model learning_rate
       (train_lr_decay B learning_rate lr_decay lr_decay_epochs)
       train_generator class_weights epochs initial_epoch val_generator))"

text \<open>\<^verbatim>\<open>test\<close>: one evaluation pass; the model is returned.\<close>

definition test ::
  "('g, 'm, 'f) collaborators \<Rightarrow> 'm \<Rightarrow> 'g \<Rightarrow> 'f pyval \<Rightarrow> 'f pyval \<Rightarrow> ('m, 'f, 'm) run"
where
  "test E model test_generator workers verbose =
     thn (emit (Evaluate model)) (\<lambda>_.
     thn (lift (evaluate_generator E model test_generator)) (\<lambda>_.
     ret model))"

section \<open>main.py: main\<close>

text \<open>
  \<^verbatim>\<open>os.path.join\<close> on POSIX: a component that starts with a slash replaces what came
  before; otherwise it is appended, after a slash unless the path so far is empty or
  ends in one. Every component must be a string.
\<close>

definition join2 :: "string \<Rightarrow> string \<Rightarrow> string" where
  "join2 path b =
     (if take 1 b = ''/'' then b
      else if path = [] \<or> last path = CHR ''/'' then path @ b
      else path @ ''/'' @ b)"

fun as_strs :: "'f pyval list \<Rightarrow> error + string list" where
  "as_strs [] = Inr []"
| "as_strs (PStr s # vs) = (case as_strs vs of Inl e \<Rightarrow> Inl e | Inr ss \<Rightarrow> Inr (s # ss))"
| "as_strs (v # vs) = Inl (TypeError ''expected str'')"

definition os_path_join :: "'f pyval \<Rightarrow> 'f pyval list \<Rightarrow> error + string" where
  "os_path_join a p =
     (case as_strs (a # p) of
        Inl e \<Rightarrow> Inl e
      | Inr ss \<Rightarrow> Inr (foldl join2 (hd ss) (tl ss)))"

text \<open>\<^verbatim>\<open>v + '.h5'\<close>: concatenation when \<open>v\<close> is a string, \<^verbatim>\<open>TypeError\<close> otherwise.\<close>

definition add_str :: "'f pyval \<Rightarrow> string \<Rightarrow> error + 'f pyval" where
  "add_str v ext =
     (case v of
        PStr s \<Rightarrow> Inr (PStr (s @ ext))
      | _ \<Rightarrow> Inl (TypeError ''unsupported operand type(s) for +''))"

text \<open>
  \<^verbatim>\<open>train\<close> is modelled on the kinds of values argparse's conversions give its
  hyperparameters: ints for the epoch counts, floats for the rates. A namespace that
  carries another kind of value there is outside the model and ends in \<open>TypeError\<close>.
\<close>

definition as_int :: "'f pyval \<Rightarrow> error + int" where
  "as_int v = (case v of PInt i \<Rightarrow> Inr i | _ \<Rightarrow> Inl (TypeError ''expected int''))"

definition as_float :: "'f pyval \<Rightarrow> error + 'f" where
  "as_float v = (case v of PFloat x \<Rightarrow> Inr x | _ \<Rightarrow> Inl (TypeError ''expected float''))"

text \<open>
  Lines 112-121: the generator class is chosen by the lower-cased dataset name, and
  imported; any other name raises \<^verbatim>\<open>RuntimeError\<close>.
\<close>

definition select_dataset ::
  "('g, 'm, 'f) collaborators \<Rightarrow> 'f namespace \<Rightarrow> ('m, 'f, string) run"
where
  "select_dataset E args =
     thn (lift (getattr args ''dataset'')) (\<lambda>d.
     thn (lift (py_lower d)) (\<lambda>name.
     if name = ''camvid'' then
       thn (lift (import_generator E ''CamVidGenerator'')) (\<lambda>_. ret ''CamVidGenerator'')
     else if name = ''cityscapes'' then
       thn (lift (import_generator E ''CityscapesGenerator'')) (\<lambda>_. ret ''CityscapesGenerator'')
     else raise (RuntimeError ''not a supported dataset'')))"

text \<open>
  Lines 144-158: the class weights. \<^verbatim>\<open>enet\<close> and \<^verbatim>\<open>mfb\<close> run their pass over the training
  data; any other name, and \<^verbatim>\<open>None\<close>, give no weights.
\<close>

definition compute_class_weights ::
  "('g, 'm, 'f) collaborators \<Rightarrow> 'f namespace \<Rightarrow> 'g \<Rightarrow> nat \<Rightarrow> ('m, 'f, 'f list option) run"
where
  "compute_class_weights E args train_generator num_classes =
     thn (lift (getattr args ''weighing'')) (\<lambda>w.
     if w \<noteq> PNone then
       thn (lift (py_lower w)) (\<lambda>name.
       if name = ''enet'' then
         thn (emit (WeighingPass ''enet'')) (\<lambda>_.
         thn (lift (enet_weighing E train_generator num_classes)) (\<lambda>cw. ret (Some cw)))
       else if name = ''mfb'' then
         thn (emit (WeighingPass ''mfb'')) (\<lambda>_.
         thn (lift (median_freq_balancing E train_generator num_classes)) (\<lambda>cw. ret (Some cw)))
       else ret None)
     else ret None)"

text \<open>
  Lines 160-165: when there are class weights, \<^verbatim>\<open>ignore_unlabelled\<close> is true and the
  dataset is camvid, \<^verbatim>\<open>class_weights[-1] = 0\<close> overwrites the last weight; on an empty
  vector the index is out of range.
\<close>

definition handle_unlabelled ::
  "'f builtins \<Rightarrow> 'f namespace \<Rightarrow> 'f list option \<Rightarrow> ('m, 'f, 'f list option) run"
where
  "handle_unlabelled B args class_weights =
     (case class_weights of
        None \<Rightarrow> ret None
      | Some w \<Rightarrow>
          thn (lift (getattr args ''ignore_unlabelled'')) (\<lambda>ignore.
          if truthy B ignore then
            thn (lift (getattr args ''dataset'')) (\<lambda>d.
            thn (lift (py_lower d)) (\<lambda>name.
            if name = ''camvid'' then
              (if w = [] then raise IndexError else ret (Some (butlast w @ [fzero B])))
            else ret (Some w)))
          else ret (Some w)))"

text \<open>
  Lines 123-167, run in the modes \<^verbatim>\<open>train\<close> and \<^verbatim>\<open>full\<close>: the training and validation
  generators, the number of classes of the first training batch, and the class weights.
  The result is what the block leaves in \<^verbatim>\<open>train_generator\<close>, \<^verbatim>\<open>val_generator\<close>,
  \<^verbatim>\<open>num_classes\<close> and \<^verbatim>\<open>class_weights\<close>; in another mode they stay unbound.
\<close>

definition prepare_training ::
  "('g, 'm, 'f) collaborators \<Rightarrow> 'f builtins \<Rightarrow> 'f namespace \<Rightarrow> string \<Rightarrow> string \<Rightarrow>
   ('m, 'f, ('g \<times> 'g \<times> nat \<times> 'f list option) option) run"
where
  "prepare_training E B args generator_class mode =
     (if mode \<in> {''train'', ''full''} then
        thn (lift (getattr args ''dataset_dir'')) (\<lambda>dataset_dir.
        thn (lift (getattr args ''batch_size'')) (\<lambda>batch_size.
        thn (emit (LoadData ''train'')) (\<lambda>_.
        thn (lift (DataGenerator E generator_class dataset_dir batch_size ''train'')) (\<lambda>tg.
        thn (emit (LoadData ''val'')) (\<lambda>_.
        thn (lift (DataGenerator E generator_class dataset_dir batch_size ''val'')) (\<lambda>vg.
        thn (lift (first_batch E tg)) (\<lambda>batch.
        thn (compute_class_weights E args tg (snd batch)) (\<lambda>cw.
        thn (handle_unlabelled B args cw) (\<lambda>class_weights.
        thn (emit (PrintClassWeights class_weights)) (\<lambda>_.
        ret (Some (tg, vg, snd batch, class_weights))))))))))))
      else ret None)"

text \<open>Lines 169-184, run in the modes \<^verbatim>\<open>test\<close> and \<^verbatim>\<open>full\<close>: the test generator.\<close>

definition prepare_test ::
  "('g, 'm, 'f) collaborators \<Rightarrow> 'f namespace \<Rightarrow> string \<Rightarrow> string \<Rightarrow>
   ('m, 'f, ('g \<times> nat) option) run"
where
  "prepare_test E args generator_class mode =
     (if mode \<in> {''test'', ''full''} then
        thn (lift (getattr args ''dataset_dir'')) (\<lambda>dataset_dir.
        thn (lift (getattr args ''batch_size'')) (\<lambda>batch_size.
        thn (emit (LoadData ''test'')) (\<lambda>_.
        thn (lift (DataGenerator E generator_class dataset_dir batch_size ''test'')) (\<lambda>g.
        thn (lift (first_batch E g)) (\<lambda>batch.
        ret (Some (g, snd batch)))))))
      else ret None)"

text \<open>
  Lines 186-189: \<^verbatim>\<open>os.path.join(args.checkpoint_dir, args.name, args.name + '.h5')\<close>, the
  arguments evaluated from left to right.
\<close>

definition checkpoint_path :: "'f namespace \<Rightarrow> error + string" where
  "checkpoint_path args =
     (case getattr args ''checkpoint_dir'' of
        Inl e \<Rightarrow> Inl e
      | Inr checkpoint_dir \<Rightarrow>
          (case getattr args ''name'' of
             Inl e \<Rightarrow> Inl e
           | Inr name \<Rightarrow>
               (case add_str name ''.h5'' of
                  Inl e \<Rightarrow> Inl e
                | Inr file \<Rightarrow> os_path_join checkpoint_dir [name, file])))"

text \<open>
  Lines 191-200: with \<^verbatim>\<open>args.resume\<close> true the model is loaded from the checkpoint path,
  with \<^verbatim>\<open>Conv2DTranspose\<close> and \<^verbatim>\<open>mean_iou\<close> registered; \<^verbatim>\<open>MeanIoU(num_classes)\<close> reads the
  number of classes, which is unbound when neither block above ran.
\<close>

definition resume_model ::
  "('g, 'm, 'f) collaborators \<Rightarrow> 'f builtins \<Rightarrow> 'f namespace \<Rightarrow> string \<Rightarrow> nat option \<Rightarrow>
   ('m, 'f, 'm option) run"
where
  "resume_model E B args path num_classes =
     thn (lift (getattr args ''resume'')) (\<lambda>resume.
     if truthy B resume then
       (case num_classes of
          None \<Rightarrow> raise (UnboundLocalError ''num_classes'')
        | Some n \<Rightarrow>
            thn (emit (LoadModel path [''Conv2DTranspose'', ''mean_iou''])) (\<lambda>_.
            thn (lift (load_model E path [''Conv2DTranspose'', ''mean_iou''])) (\<lambda>m.
            ret (Some m))))
     else ret None)"

text \<open>
  Lines 202-220, run in the modes \<^verbatim>\<open>train\<close> and \<^verbatim>\<open>full\<close>: the call of \<^verbatim>\<open>train\<close>, its
  arguments read from the namespace from left to right, and then the one call of
  \<^verbatim>\<open>model.save(checkpoint_path)\<close>. The generators and class weights are the locals that
  the block of lines 123-167 bound in the same modes.
\<close>

definition train_and_save ::
  "('g, 'm, 'f) collaborators \<Rightarrow> 'f builtins \<Rightarrow> 'f namespace \<Rightarrow> string \<Rightarrow>
   ('g \<times> 'g \<times> nat \<times> 'f list option) option \<Rightarrow> string \<Rightarrow> 'm option \<Rightarrow> ('m, 'f, 'm option) run"
where
  "train_and_save E B args mode training path model =
     (if mode \<in> {''train'', ''full''} then
     (case training of
        None \<Rightarrow> raise (UnboundLocalError ''train_generator'')
      | Some (tg, vg, num_classes, class_weights) \<Rightarrow>
          thn (lift (getattr args ''checkpoint_dir'')) (\<lambda>checkpoint_dir.
          thn (lift (getattr args ''name'')) (\<lambda>name.
          thn (lift (os_path_join checkpoint_dir [name])) (\<lambda>tensorboard_logdir.
          thn (lift (getattr args ''epochs'')) (\<lambda>epochs.
          thn (lift (getattr args ''initial_epoch'')) (\<lambda>initial_epoch.
          thn (lift (getattr args ''learning_rate'')) (\<lambda>learning_rate.
          thn (lift (getattr args ''lr_decay'')) (\<lambda>lr_decay.
          thn (lift (getattr args ''lr_decay_epochs'')) (\<lambda>lr_decay_epochs.
          thn (lift (getattr args ''workers'')) (\<lambda>workers.
          thn (lift (getattr args ''verbose'')) (\<lambda>verbose.
          thn (lift (as_int epochs)) (\<lambda>epochs.
          thn (lift (as_int initial_epoch)) (\<lambda>initial_epoch.
          thn (lift (as_float learning_rate)) (\<lambda>learning_rate.
          thn (lift (as_float lr_decay)) (\<lambda>lr_decay.
          thn (lift (as_int lr_decay_epochs)) (\<lambda>lr_decay_epochs.
          thn (train E B epochs initial_epoch tg vg class_weights learning_rate lr_decay
                 lr_decay_epochs workers verbose tensorboard_logdir model) (\<lambda>trained.
          thn (emit (Save trained path)) (\<lambda>_.
          thn (lift (save_model E trained path)) (\<lambda>_.
          ret (Some trained))))))))))))))))))))
      else ret model)"

text \<open>Lines 222-224, run in the modes \<^verbatim>\<open>test\<close> and \<^verbatim>\<open>full\<close>.\<close>

definition run_test ::
  "('g, 'm, 'f) collaborators \<Rightarrow> 'f namespace \<Rightarrow> string \<Rightarrow> ('g \<times> nat) option \<Rightarrow> 'm option \<Rightarrow>
   ('m, 'f, unit) run"
where
  "run_test E args mode testing model =
     (if mode \<in> {''test'', ''full''} then
        (case model of
           None \<Rightarrow> raise (AssertionError ''model is not defined'')
         | Some m \<Rightarrow>
             (case testing of
                None \<Rightarrow> raise (UnboundLocalError ''test_generator'')
              | Some (test_generator, num_classes) \<Rightarrow>
                  thn (lift (getattr args ''workers'')) (\<lambda>workers.
                  thn (lift (getattr args ''verbose'')) (\<lambda>verbose.
                  thn (test E m test_generator workers verbose) (\<lambda>_. ret ())))))
      else ret ())"

text \<open>
  The number of classes that line 198 reads: the test block's when it ran (it runs
  last), else the training block's.
\<close>

definition bound_num_classes ::
  "('g \<times> 'g \<times> nat \<times> 'f list option) option \<Rightarrow> ('g \<times> nat) option \<Rightarrow> nat option"
where
  "bound_num_classes training testing =
     (case testing of
        Some (g, n) \<Rightarrow> Some n
      | None \<Rightarrow> (case training of Some (tg, vg, n, cw) \<Rightarrow> Some n | None \<Rightarrow> None))"

text \<open>
  The body of \<^verbatim>\<open>main\<close> after line 110, for the namespace \<open>args\<close>; \<^verbatim>\<open>args.mode.lower()\<close> is
  read once, since the namespace does not change. \<open>main\<close> itself parses the command line
  first.
\<close>

definition main_body ::
  "('g, 'm, 'f) collaborators \<Rightarrow> 'f builtins \<Rightarrow> 'f namespace \<Rightarrow> ('m, 'f, unit) run"
where
  "main_body E B args =
     thn (select_dataset E args) (\<lambda>generator_class.
     thn (lift (getattr args ''mode'')) (\<lambda>m.
     thn (lift (py_lower m)) (\<lambda>mode.
     thn (prepare_training E B args generator_class mode) (\<lambda>training.
     thn (prepare_test E args generator_class mode) (\<lambda>testing.
     thn (lift (checkpoint_path args)) (\<lambda>path.
     thn (resume_model E B args path (bound_num_classes training testing)) (\<lambda>model.
     thn (train_and_save E B args mode training path model) (\<lambda>trained.
     run_test E args mode testing trained))))))))"

definition main ::
  "('g, 'm, 'f) collaborators \<Rightarrow> 'f builtins \<Rightarrow> (string \<times> string) list \<Rightarrow> ('m, 'f, unit) run"
where
  "main E B argv =
     (case get_arguments B argv of
        Inl e \<Rightarrow> raise e
      | Inr args \<Rightarrow> main_body E B args)"

text \<open>
  Lines 112-184 on their own, the part of the body that runs before the checkpoint path
  is built: the same blocks in the same order, returning the mode and what the two
  blocks bound.
\<close>

definition before_checkpoint ::
  "('g, 'm, 'f) collaborators \<Rightarrow> 'f builtins \<Rightarrow> 'f namespace \<Rightarrow>
   ('m, 'f, string \<times> ('g \<times> 'g \<times> nat \<times> 'f list option) option \<times> ('g \<times> nat) option) run"
where
  "before_checkpoint E B args =
     thn (select_dataset E args) (\<lambda>generator_class.
     thn (lift (getattr args ''mode'')) (\<lambda>m.
     thn (lift (py_lower m)) (\<lambda>mode.
     thn (prepare_training E B args generator_class mode) (\<lambda>training.
     thn (prepare_test E args generator_class mode) (\<lambda>testing.
     ret (mode, training, testing))))))"

section \<open>The learning rate the specification asks for\<close>

text \<open>
  The specification's expression for the rate of epoch \<open>i\<close>,
  \<^verbatim>\<open>learning_rate * lr_decay^(i // lr_decay_epochs)\<close>, evaluated as Python evaluates it:
  the floor division first, then the power, then the product with \<open>learning_rate\<close> on the
  left.
\<close>

definition staircase_lr :: "'f builtins \<Rightarrow> 'f \<Rightarrow> 'f \<Rightarrow> int \<Rightarrow> int \<Rightarrow> error + 'f" where
  "staircase_lr B learning_rate lr_decay lr_decay_epochs i =
     (if lr_decay_epochs = 0 then Inl ZeroDivisionError
      else
        (case fpow B lr_decay (i div lr_decay_epochs) of
           Inl e \<Rightarrow> Inl e
         | Inr p \<Rightarrow> Inr (fmul B learning_rate p)))"

section \<open>Predicates on runs\<close>

definition events_all :: "(('m, 'f) event \<Rightarrow> bool) \<Rightarrow> ('m, 'f, 'a) run \<Rightarrow> bool" where
  "events_all P r = list_all P (fst r)"

text \<open>The events of the learning-rate schedule: a rate is set, an epoch runs with it.\<close>

definition schedule_event :: "('m, 'f) event \<Rightarrow> bool" where
  "schedule_event ev =
     (case ev of
        SetLR i v \<Rightarrow> True
      | Epoch i v \<Rightarrow> True
      | _ \<Rightarrow> False)"

text \<open>The log of epochs that ran: for each, the rate is set and then its batches run.\<close>

definition epoch_log :: "(int \<times> 'f) list \<Rightarrow> ('m, 'f) event list" where
  "epoch_log ps = concat (map (\<lambda>p. [SetLR (fst p) (snd p), Epoch (fst p) (snd p)]) ps)"

definition fails :: "('m, 'f, 'a) run \<Rightarrow> bool" where
  "fails r = (case snd r of Inl e \<Rightarrow> True | Inr a \<Rightarrow> False)"

section \<open>A sample environment\<close>

text \<open>
  Concrete builtins and collaborators, for running the model on concrete command lines.
  Floats are exact reals here; \<open>int\<close> and \<open>float\<close> read an optional minus sign and decimal
  digits. The collaborators never raise: a generator is named by its mode, the first
  batch has three classes, both weight passes return the weights 7, 8, 9, and a model is
  the number of epochs it was trained for (a loaded checkpoint has 40).
\<close>

definition read_digits :: "string \<Rightarrow> nat option" where
  "read_digits s =
     (if s = [] then None
      else
        foldl (\<lambda>acc c.
          case (acc, map_of (zip ''0123456789'' [0 ..< 10]) c) of
            (Some n, Some d) \<Rightarrow> Some (10 * n + d)
          | _ \<Rightarrow> None) (Some 0) s)"

definition read_int :: "string \<Rightarrow> int option" where
  "read_int s =
     (if take 1 s = ''-'' then map_option (\<lambda>n. - int n) (read_digits (drop 1 s))
      else map_option int (read_digits s))"

definition sample_builtins :: "real builtins" where
  "sample_builtins =
     \<lparr>py_int = read_int,
      py_float = (\<lambda>s. map_option real_of_int (read_int s)),
      float_literal = (\<lambda>s. if s = ''5e-4'' then 5 / 10000 else if s = ''0.1'' then 1 / 10 else 0),
      fmul = (\<lambda>a b. a * b),
      fpow = (\<lambda>x n. if x = 0 \<and> n < 0 then Inl ZeroDivisionError else Inr (x powi n)),
      fzero = 0,
      float_truth = (\<lambda>x. x \<noteq> 0)\<rparr>"

definition sample_collaborators :: "(string, nat, real) collaborators" where
  "sample_collaborators =
     \<lparr>import_generator = (\<lambda>c. Inr ()),
      DataGenerator = (\<lambda>c dir bs mode. Inr mode),
      first_batch = (\<lambda>g. Inr ([360, 480, 3], 3)),
      enet_weighing = (\<lambda>g n. Inr [7, 8, 9]),
      median_freq_balancing = (\<lambda>g n. Inr [7, 8, 9]),
      load_model = (\<lambda>path names. Inr 40),
      LinkNet = (\<lambda>n shape. Inr 0),
      fit_epoch = (\<lambda>m lr epoch cw tg vg. Inr (Suc m)),
      save_model = (\<lambda>m path. Inr ()),
      evaluate_generator = (\<lambda>m g. Inr ())\<rparr>"

text \<open>
  The same collaborators, with no checkpoint file at \<^verbatim>\<open>ckpt/LinkNet/LinkNet.h5\<close>: the
  loader raises there, and loads any other path.
\<close>

definition no_checkpoint :: "(string, nat, real) collaborators" where
  "no_checkpoint =
     sample_collaborators
       \<lparr>load_model := (\<lambda>path names.
          if path = ''ckpt/LinkNet/LinkNet.h5'' then Inl (Raised ''OSError'') else Inr 40)\<rparr>"

text \<open>The same collaborators, with a dataset directory that cannot be read.\<close>

definition raising_loader :: "(string, nat, real) collaborators" where
  "raising_loader =
     sample_collaborators\<lparr>DataGenerator := (\<lambda>c dir bs mode. Inl (Raised ''OSError''))\<rparr>"

text \<open>
  A namespace as \<^verbatim>\<open>main\<close> reads it: the defaults of \<^verbatim>\<open>get_arguments\<close>, and the three
  attributes \<^verbatim>\<open>checkpoint_dir\<close>, \<^verbatim>\<open>resume\<close> and \<^verbatim>\<open>initial_epoch\<close> besides, with 4 epochs and
  a decay every 2 epochs to keep the run short.
\<close>

definition resume_namespace :: "real namespace" where
  "resume_namespace =
     (defaults (parser_arguments sample_builtins))
       (''epochs'' \<mapsto> PInt 4, ''lr_decay_epochs'' \<mapsto> PInt 2,
        ''checkpoint_dir'' \<mapsto> PStr ''ckpt'', ''resume'' \<mapsto> PBool True,
        ''initial_epoch'' \<mapsto> PInt 2)"

section \<open>The parser: what a parsed namespace holds\<close>

lemma find_action_Some:
  "find_action ps opt = Some a \<Longrightarrow> a \<in> set ps \<and> opt \<in> set (option_strings a)"
  by (induction ps) (auto split: if_splits)

lemma take_action_Inr:
  assumes "take_action B ps ns occ = Inr ns'"
  obtains a v where "find_action ps (fst occ) = Some a"
    and "get_value B (arg_type a) (snd occ) = Some v"
    and "case choices a of None \<Rightarrow> True | Some cs \<Rightarrow> v \<in> set cs"
    and "ns' = ns(dest a \<mapsto> v)"
  using assms unfolding take_action_def
  by (auto split: option.splits if_splits)

lemma take_action_Inl:
  "take_action B ps ns occ = Inl e \<Longrightarrow> \<exists>m. e = ArgumentError m"
  unfolding take_action_def by (auto split: option.splits if_splits)

lemma take_action_Inl_any:
  "take_action B ps ns occ = Inl e \<Longrightarrow> take_action B ps ns0 occ = Inl e"
  unfolding take_action_def by (auto split: option.splits if_splits)

lemma consume_Inl:
  "consume B ps ns argv = Inl e \<Longrightarrow> \<exists>m. e = ArgumentError m"
  by (induction argv arbitrary: ns) (auto split: sum.splits dest: take_action_Inl)

lemma consume_rejects:
  "occ \<in> set argv \<Longrightarrow> take_action B ps ns0 occ = Inl e \<Longrightarrow> \<exists>m. consume B ps ns argv = Inl (ArgumentError m)"
proof (induction argv arbitrary: ns)
  case Nil
  then show ?case by simp
next
  case (Cons x xs)
  show ?case
  proof (cases "take_action B ps ns x")
    case (Inl e')
    then show ?thesis using take_action_Inl[OF Inl] by auto
  next
    case (Inr ns')
    have "occ \<noteq> x" using Inr Cons.prems(2) take_action_Inl_any[of B ps ns0 occ e ns] by auto
    then have "occ \<in> set xs" using Cons.prems(1) by simp
    from Cons.IH[OF this Cons.prems(2)] show ?thesis using Inr by simp
  qed
qed

lemma consume_append:
  "consume B ps ns (xs @ ys) =
     (case consume B ps ns xs of Inl e \<Rightarrow> Inl e | Inr ns' \<Rightarrow> consume B ps ns' ys)"
  by (induction xs arbitrary: ns) (auto split: sum.splits)

lemma consume_untouched:
  "consume B ps ns ys = Inr ns' \<Longrightarrow>
   (\<And>occ a. occ \<in> set ys \<Longrightarrow> find_action ps (fst occ) = Some a \<Longrightarrow> dest a \<noteq> d) \<Longrightarrow>
   ns' d = ns d"
proof (induction ys arbitrary: ns)
  case Nil
  then show ?case by simp
next
  case (Cons y ys)
  from Cons.prems(1) obtain ns1 where s1: "take_action B ps ns y = Inr ns1"
    and s2: "consume B ps ns1 ys = Inr ns'"
    by (auto split: sum.splits)
  from s1 obtain a v where a: "find_action ps (fst y) = Some a" and n: "ns1 = ns(dest a \<mapsto> v)"
    by (rule take_action_Inr)
  have "dest a \<noteq> d" using Cons.prems(2)[of y a] a by simp
  then have "ns1 d = ns d" using n by simp
  moreover have "ns' d = ns1 d"
    by (rule Cons.IH[OF s2]) (rule Cons.prems(2), simp_all)
  ultimately show ?case by simp
qed

lemma dom_defaults: "dom (defaults ps) = dest ` set ps"
  by (simp add: defaults_def dom_map_of_conv_image_fst image_image)

lemma take_action_dom:
  "take_action B ps ns occ = Inr ns' \<Longrightarrow> dest ` set ps \<subseteq> dom ns \<Longrightarrow> dom ns' = dom ns"
  by (erule take_action_Inr) (auto dest!: find_action_Some)

lemma consume_dom:
  "consume B ps ns argv = Inr ns' \<Longrightarrow> dest ` set ps \<subseteq> dom ns \<Longrightarrow> dom ns' = dom ns"
proof (induction argv arbitrary: ns)
  case Nil
  then show ?case by simp
next
  case (Cons y ys)
  from Cons.prems(1) obtain ns1 where s1: "take_action B ps ns y = Inr ns1"
    and s2: "consume B ps ns1 ys = Inr ns'"
    by (auto split: sum.splits)
  have d1: "dom ns1 = dom ns" using take_action_dom[OF s1 Cons.prems(2)] .
  then have "dest ` set ps \<subseteq> dom ns1" using Cons.prems(2) by simp
  from Cons.IH[OF s2 this] d1 show ?case by simp
qed

lemma parse_args_dom:
  "parse_args B ps argv = Inr ns \<Longrightarrow> dom ns = dest ` set ps"
  unfolding parse_args_def using consume_dom[of B ps "defaults ps" argv ns] 
  by (simp add: dom_defaults)

lemma get_arguments_dom:
  "get_arguments B argv = Inr ns \<Longrightarrow>
   dom ns = {''mode'', ''batch_size'', ''epochs'', ''learning_rate'', ''lr_decay'',
     ''lr_decay_epochs'', ''dataset'', ''dataset_dir'', ''weighing'', ''ignore_unlabelled'',
     ''workers'', ''verbose'', ''name'', ''save_dir''}"
  unfolding get_arguments_def
  by (drule parse_args_dom) (simp add: parser_arguments_def)


lemma defaults_Some:
  "defaults ps d = Some v \<Longrightarrow> \<exists>a\<in>set ps. dest a = d \<and> v = default_value a"
  unfolding defaults_def by (auto dest!: map_of_SomeD)

lemma take_action_value:
  assumes "take_action B ps ns occ = Inr ns'" and "ns' d = Some v"
  shows "ns d = Some v \<or>
    (\<exists>a\<in>set ps. \<exists>s. dest a = d \<and> get_value B (arg_type a) s = Some v \<and>
       (case choices a of None \<Rightarrow> True | Some cs \<Rightarrow> v \<in> set cs))"
proof -
  from assms(1) obtain a w where a: "find_action ps (fst occ) = Some a"
    and g: "get_value B (arg_type a) (snd occ) = Some w"
    and c: "case choices a of None \<Rightarrow> True | Some cs \<Rightarrow> w \<in> set cs"
    and n: "ns' = ns(dest a \<mapsto> w)"
    by (rule take_action_Inr)
  show ?thesis
  proof (cases "dest a = d")
    case True
    then have "w = v" using n assms(2) by simp
    moreover have "a \<in> set ps" using find_action_Some[OF a] by simp
    ultimately show ?thesis using True g c by blast
  next
    case False
    then show ?thesis using n assms(2) by simp
  qed
qed

lemma consume_value:
  "consume B ps ns argv = Inr ns' \<Longrightarrow> ns' d = Some v \<Longrightarrow>
   ns d = Some v \<or>
    (\<exists>a\<in>set ps. \<exists>s. dest a = d \<and> get_value B (arg_type a) s = Some v \<and>
       (case choices a of None \<Rightarrow> True | Some cs \<Rightarrow> v \<in> set cs))"
proof (induction argv arbitrary: ns)
  case Nil
  then show ?case by simp
next
  case (Cons y ys)
  from Cons.prems(1) obtain ns1 where s1: "take_action B ps ns y = Inr ns1"
    and s2: "consume B ps ns1 ys = Inr ns'"
    by (auto split: sum.splits)
  from Cons.IH[OF s2 Cons.prems(2)] show ?case
    using take_action_value[OF s1, of d v] by blast
qed

lemma parse_args_value:
  assumes "parse_args B ps argv = Inr ns" and "ns d = Some v"
  shows "\<exists>a\<in>set ps. dest a = d \<and>
     (v = default_value a \<or>
      (\<exists>s. get_value B (arg_type a) s = Some v \<and>
         (case choices a of None \<Rightarrow> True | Some cs \<Rightarrow> v \<in> set cs)))"
  using consume_value[OF assms(1)[unfolded parse_args_def] assms(2)] defaults_Some[of ps d v]
  by blast

lemma get_arguments_value:
  assumes "get_arguments B argv = Inr ns"
  shows "ns ''mode'' = Some (PStr ''train'')"
    and "ns ''dataset'' = Some (PStr ''camvid'')"
    and "ns ''weighing'' \<in> Some ` PStr ` {''ENet'', ''enet'', ''mfb'', ''none''}"
    and "ns ''verbose'' = Some (PInt 1)"
    and "\<exists>b. ns ''ignore_unlabelled'' = Some (PBool b)"
    and "\<exists>v. ns ''dataset_dir'' = Some v"
    and "\<exists>v. ns ''batch_size'' = Some v"
    and "ns ''checkpoint_dir'' = None"
    and "ns ''resume'' = None"
    and "ns ''initial_epoch'' = None"
    and "\<exists>v. ns ''save_dir'' = Some v"
proof -
  have d: "dom ns = {''mode'', ''batch_size'', ''epochs'', ''learning_rate'', ''lr_decay'',
     ''lr_decay_epochs'', ''dataset'', ''dataset_dir'', ''weighing'', ''ignore_unlabelled'',
     ''workers'', ''verbose'', ''name'', ''save_dir''}"
    using assms by (rule get_arguments_dom)
  have p: "parse_args B (parser_arguments B) argv = Inr ns"
    using assms by (simp add: get_arguments_def)
  have ex: "\<exists>v. ns k = Some v" if "k \<in> dom ns" for k using that by auto
  have nd: "ns k = None" if "k \<notin> dom ns" for k using that by auto
  show "ns ''checkpoint_dir'' = None" by (rule nd) (simp add: d)
  show "ns ''resume'' = None" by (rule nd) (simp add: d)
  show "ns ''initial_epoch'' = None" by (rule nd) (simp add: d)
  show "\<exists>v. ns ''save_dir'' = Some v" by (rule ex) (simp add: d)
  show "\<exists>v. ns ''dataset_dir'' = Some v" by (rule ex) (simp add: d)
  show "\<exists>v. ns ''batch_size'' = Some v" by (rule ex) (simp add: d)
  obtain v where v: "ns ''mode'' = Some v" using ex[of "''mode''"] d by auto
  from parse_args_value[OF p v] show "ns ''mode'' = Some (PStr ''train'')"
    using v by (auto simp: parser_arguments_def get_value_def)
  obtain v where v: "ns ''dataset'' = Some v" using ex[of "''dataset''"] d by auto
  from parse_args_value[OF p v] show "ns ''dataset'' = Some (PStr ''camvid'')"
    using v by (auto simp: parser_arguments_def get_value_def)
  obtain v where v: "ns ''weighing'' = Some v" using ex[of "''weighing''"] d by auto
  from parse_args_value[OF p v]
  show "ns ''weighing'' \<in> Some ` PStr ` {''ENet'', ''enet'', ''mfb'', ''none''}"
    using v by (auto simp: parser_arguments_def get_value_def)
  obtain v where v: "ns ''verbose'' = Some v" using ex[of "''verbose''"] d by auto
  from parse_args_value[OF p v] show "ns ''verbose'' = Some (PInt 1)"
    using v by (auto simp: parser_arguments_def get_value_def)
  obtain v where v: "ns ''ignore_unlabelled'' = Some v" using ex[of "''ignore_unlabelled''"] d by auto
  from parse_args_value[OF p v] show "\<exists>b. ns ''ignore_unlabelled'' = Some (PBool b)"
    using v by (auto simp: parser_arguments_def get_value_def)
qed

section \<open>Claims about the command line\<close>

lemma find_ignore_unlabelled:
  "find_action (parser_arguments B) opt = Some a \<Longrightarrow> dest a = ''ignore_unlabelled'' \<Longrightarrow>
   opt = ''--ignore_unlabelled''"
  by (drule find_action_Some) (auto simp: parser_arguments_def)

text \<open>
  C10. Whatever string the command line gives to \<^verbatim>\<open>--ignore_unlabelled\<close> (its last
  occurrence counts), the parsed attribute is the bool "the string is not empty": every
  non-empty string, \<^verbatim>\<open>False\<close> among them, parses to \<^verbatim>\<open>True\<close>, and only the empty string
  parses to \<^verbatim>\<open>False\<close>. So \<^verbatim>\<open>if args.ignore_unlabelled\<close> in \<^verbatim>\<open>main\<close> takes the zeroing branch
  for every non-empty string.
\<close>

theorem ignore_unlabelled_true_unless_empty:
  assumes "get_arguments B (pre @ (''--ignore_unlabelled'', s) # post) = Inr args"
    and "''--ignore_unlabelled'' \<notin> fst ` set post"
  shows "args ''ignore_unlabelled'' = Some (PBool (s \<noteq> []))
    \<and> (\<exists>v. getattr args ''ignore_unlabelled'' = Inr v \<and> truthy B v = (s \<noteq> []))"
proof -
  let ?ps = "parser_arguments B"
  from assms(1) obtain ns1 where
    c2: "consume B ?ps ns1 ((''--ignore_unlabelled'', s) # post) = Inr args"
    unfolding get_arguments_def parse_args_def consume_append
    by (auto split: sum.splits)
  have t: "take_action B ?ps ns1 (''--ignore_unlabelled'', s) =
      Inr (ns1(''ignore_unlabelled'' \<mapsto> PBool (s \<noteq> [])))"
    by (simp add: take_action_def parser_arguments_def get_value_def)
  from c2 t have c3: "consume B ?ps (ns1(''ignore_unlabelled'' \<mapsto> PBool (s \<noteq> []))) post = Inr args"
    by simp
  have "args ''ignore_unlabelled'' = (ns1(''ignore_unlabelled'' \<mapsto> PBool (s \<noteq> []))) ''ignore_unlabelled''"
  proof (rule consume_untouched[OF c3])
    fix occ a
    assume "occ \<in> set post" and "find_action ?ps (fst occ) = Some a"
    then show "dest a \<noteq> ''ignore_unlabelled''"
      using assms(2) find_ignore_unlabelled[of B "fst occ" a] by (force simp: image_iff)
  qed
  then have "args ''ignore_unlabelled'' = Some (PBool (s \<noteq> []))" by simp
  then show ?thesis by (simp add: getattr_def truthy_def)
qed

theorem ignore_unlabelled_true_unless_empty_witness:
  "\<exists>args. get_arguments sample_builtins [(''--ignore_unlabelled'', ''False'')] = Inr args
     \<and> args ''ignore_unlabelled'' = Some (PBool True)
     \<and> (\<exists>v. getattr args ''ignore_unlabelled'' = Inr v \<and> truthy sample_builtins v)"
proof -
  obtain args where
    g: "get_arguments sample_builtins ([] @ (''--ignore_unlabelled'', ''False'') # []) = Inr args"
    by (simp add: get_arguments_def parse_args_def take_action_def parser_arguments_def
        get_value_def)
  from ignore_unlabelled_true_unless_empty[OF g] g show ?thesis by simp
qed

text \<open>
  C5. A command line that asks for a weighing name other than \<^verbatim>\<open>enet\<close>, \<^verbatim>\<open>mfb\<close> and
  \<^verbatim>\<open>none\<close> ends in the parser's error, and the run has no event at all: no data is
  loaded, no class-weight pass runs, and no line reports "no weights".
\<close>

theorem unknown_weighing_rejected:
  assumes "(''--weighing'', s) \<in> set argv"
    and "s \<notin> {''enet'', ''mfb'', ''none''}"
  shows "\<exists>msg. main E B argv = ([], Inl (ArgumentError msg))"
proof -
  have "take_action B (parser_arguments B) Map.empty (''--weighing'', s) =
      Inl (ArgumentError ''argument --weighing: invalid choice'')"
    using assms(2) by (simp add: take_action_def parser_arguments_def get_value_def)
  from consume_rejects[OF assms(1) this]
  obtain m where "get_arguments B argv = Inl (ArgumentError m)"
    unfolding get_arguments_def parse_args_def by blast
  then show ?thesis by (simp add: main_def raise_def)
qed

theorem unknown_weighing_rejected_witness:
  "(''--weighing'', ''ENet'') \<in> set [(''--epochs'', ''5''), (''--weighing'', ''ENet'')]
   \<and> ''ENet'' \<notin> {''enet'', ''mfb'', ''none''}
   \<and> (\<exists>msg. main sample_collaborators sample_builtins
          [(''--epochs'', ''5''), (''--weighing'', ''ENet'')] = ([], Inl (ArgumentError msg)))"
proof -
  have a: "(''--weighing'', ''ENet'') \<in> set [(''--epochs'', ''5''), (''--weighing'', ''ENet'')]"
    by simp
  have b: "''ENet'' \<notin> {''enet'', ''mfb'', ''none''}" by simp
  from unknown_weighing_rejected[OF a b] a b show ?thesis by blast
qed

text \<open>
  The choices of the parser, one option at a time: a command line with a value outside
  the list is refused before \<^verbatim>\<open>main\<close> does anything, and for \<^verbatim>\<open>--mode\<close>, \<^verbatim>\<open>--dataset\<close> and
  \<^verbatim>\<open>--weighing\<close> each listed value is accepted. For \<^verbatim>\<open>--verbose\<close> every value is refused.
\<close>

lemma rejected_occurrence:
  assumes "occ \<in> set argv"
    and "take_action B (parser_arguments B) Map.empty occ = Inl e"
  shows "\<exists>msg. main E B argv = ([], Inl (ArgumentError msg))"
proof -
  from consume_rejects[OF assms]
  obtain m where "get_arguments B argv = Inl (ArgumentError m)"
    unfolding get_arguments_def parse_args_def by blast
  then show ?thesis by (simp add: main_def raise_def)
qed

lemma take_action_mode:
  "s \<noteq> ''train'' \<Longrightarrow> take_action B (parser_arguments B) Map.empty (''--mode'', s)
     = Inl (ArgumentError ''argument --mode: invalid choice'')"
  "s \<noteq> ''train'' \<Longrightarrow> take_action B (parser_arguments B) Map.empty (''-m'', s)
     = Inl (ArgumentError ''argument -m: invalid choice'')"
  by (simp_all add: take_action_def parser_arguments_def get_value_def)

lemma take_action_dataset:
  "s \<noteq> ''camvid'' \<Longrightarrow> take_action B (parser_arguments B) Map.empty (''--dataset'', s)
     = Inl (ArgumentError ''argument --dataset: invalid choice'')"
  by (simp add: take_action_def parser_arguments_def get_value_def)

lemma take_action_weighing:
  "s \<notin> {''enet'', ''mfb'', ''none''} \<Longrightarrow>
   take_action B (parser_arguments B) Map.empty (''--weighing'', s)
     = Inl (ArgumentError ''argument --weighing: invalid choice'')"
  by (simp add: take_action_def parser_arguments_def get_value_def)

lemma take_action_verbose:
  "take_action B (parser_arguments B) Map.empty (''--verbose'', s)
     = Inl (ArgumentError ''argument --verbose: invalid choice'')"
  by (simp add: take_action_def parser_arguments_def get_value_def)

lemma choices_enforced:
  "(''--mode'', s) \<in> set argv \<Longrightarrow> s \<noteq> ''train'' \<Longrightarrow>
     \<exists>msg. main E B argv = ([], Inl (ArgumentError msg))"
  "(''-m'', s) \<in> set argv \<Longrightarrow> s \<noteq> ''train'' \<Longrightarrow>
     \<exists>msg. main E B argv = ([], Inl (ArgumentError msg))"
  "(''--dataset'', s) \<in> set argv \<Longrightarrow> s \<noteq> ''camvid'' \<Longrightarrow>
     \<exists>msg. main E B argv = ([], Inl (ArgumentError msg))"
  "(''--weighing'', s) \<in> set argv \<Longrightarrow> s \<notin> {''enet'', ''mfb'', ''none''} \<Longrightarrow>
     \<exists>msg. main E B argv = ([], Inl (ArgumentError msg))"
  "(''--verbose'', s) \<in> set argv \<Longrightarrow>
     \<exists>msg. main E B argv = ([], Inl (ArgumentError msg))"
  by (blast intro: rejected_occurrence take_action_mode take_action_dataset
      take_action_weighing take_action_verbose)+

lemma choices_accepted:
  "\<exists>args. get_arguments B [(''--mode'', ''train'')] = Inr args"
  "\<exists>args. get_arguments B [(''--dataset'', ''camvid'')] = Inr args"
  "\<exists>args. get_arguments B [(''--weighing'', ''enet'')] = Inr args"
  "\<exists>args. get_arguments B [(''--weighing'', ''mfb'')] = Inr args"
  "\<exists>args. get_arguments B [(''--weighing'', ''none'')] = Inr args"
  by (simp_all add: get_arguments_def parse_args_def take_action_def parser_arguments_def
      get_value_def)

text \<open>
  C6. The option \<^verbatim>\<open>--verbose\<close> is declared with \<^verbatim>\<open>choices=[0, 1, 2]\<close> and no \<^verbatim>\<open>type=\<close>, so
  the value compared against the choices is the raw string: the command line
  \<^verbatim>\<open>--verbose 1\<close> is refused by the parser, although 1 is one of the listed values.
\<close>

theorem verbose_value_rejected:
  "main E B [(''--verbose'', ''1'')] = ([], Inl (ArgumentError ''argument --verbose: invalid choice''))"
  by (simp add: main_def raise_def get_arguments_def parse_args_def take_action_def
      parser_arguments_def get_value_def)

section \<open>Runs: sequencing, events and failure\<close>

lemma thn_ret [simp]: "thn (ret a) f = f a"
  by (simp add: thn_def ret_def split: prod.splits)

lemma thn_raise [simp]: "thn (raise e) f = raise e"
  by (simp add: thn_def raise_def)

lemma thn_lift_Inr [simp]: "thn (lift (Inr a)) f = f a"
  by (simp add: thn_def lift_def split: prod.splits)

lemma thn_lift_Inl [simp]: "thn (lift (Inl e)) f = raise e"
  by (simp add: thn_def lift_def raise_def)

lemma fst_thn:
  "fst (thn m f) = (case snd m of Inl e \<Rightarrow> fst m | Inr a \<Rightarrow> fst m @ fst (f a))"
  by (cases m) (auto simp: thn_def split: sum.splits prod.splits)

lemma snd_thn:
  "snd (thn m f) = (case snd m of Inl e \<Rightarrow> Inl e | Inr a \<Rightarrow> snd (f a))"
  by (cases m) (auto simp: thn_def split: sum.splits prod.splits)

lemma thn_Inl: "thn (t, Inl e) f = (t, Inl e)"
  by (simp add: thn_def)

lemma thn_Inr: "thn (t, Inr a) f = (t @ fst (f a), snd (f a))"
  by (simp add: thn_def split: prod.splits)

lemma thn_emit: "thn (emit ev) f = (ev # fst (f ()), snd (f ()))"
  by (simp add: thn_def emit_def split: prod.splits)

lemma events_all_simps [simp]:
  "events_all P (ret a)" "events_all P (raise e)" "events_all P (lift r)"
  "events_all P (emit ev) = P ev"
  by (simp_all add: events_all_def ret_def raise_def lift_def emit_def)

lemma events_all_thn:
  "events_all P m \<Longrightarrow> (\<And>a. snd m = Inr a \<Longrightarrow> events_all P (f a)) \<Longrightarrow> events_all P (thn m f)"
  by (auto simp: events_all_def fst_thn split: sum.splits)

lemma events_allD: "events_all P r \<Longrightarrow> ev \<in> set (fst r) \<Longrightarrow> P ev"
  by (simp add: events_all_def list_all_iff)

lemma events_allI: "(\<And>ev. ev \<in> set (fst r) \<Longrightarrow> P ev) \<Longrightarrow> events_all P r"
  by (simp add: events_all_def list_all_iff)

lemma fails_simps [simp]:
  "fails (raise e)" "\<not> fails (ret a)" "fails (lift r) = isl r" "\<not> fails (emit ev)"
  by (simp_all add: fails_def ret_def raise_def lift_def emit_def isl_def split: sum.splits)

lemma fails_thn:
  "fails (thn m f) = (fails m \<or> (\<exists>a. snd m = Inr a \<and> fails (f a)))"
  by (auto simp: fails_def snd_thn split: sum.splits)

lemma fails_thnI: "(\<And>a. snd m = Inr a \<Longrightarrow> fails (f a)) \<Longrightarrow> fails (thn m f)"
  by (auto simp: fails_def snd_thn split: sum.splits)

lemma snd_lift [simp]: "snd (lift r) = r" "fst (lift r) = []"
  by (simp_all add: lift_def)

lemma snd_ret [simp]: "snd (ret a) = Inr a" "fst (ret a) = []"
  by (simp_all add: ret_def)

lemma snd_raise [simp]: "snd (raise e) = Inl e" "fst (raise e) = []"
  by (simp_all add: raise_def)

lemma snd_emit [simp]: "snd (emit ev) = Inr ()" "fst (emit ev) = [ev]"
  by (simp_all add: emit_def)

subsection \<open>What each block of main can log\<close>

lemma select_dataset_events: "events_all P (select_dataset E args)"
  unfolding select_dataset_def
  by (auto intro!: events_all_thn)

lemma compute_class_weights_events:
  "(\<And>n. P (WeighingPass n)) \<Longrightarrow> events_all P (compute_class_weights E args tg n)"
  unfolding compute_class_weights_def
  by (auto intro!: events_all_thn)

lemma handle_unlabelled_events: "events_all P (handle_unlabelled B args cw)"
  unfolding handle_unlabelled_def
  by (auto intro!: events_all_thn split: option.splits)

lemma handle_unlabelled_zero:
  assumes "snd (handle_unlabelled B args cw) = Inr (Some w)"
    and "args ''ignore_unlabelled'' = Some v" and "truthy B v"
    and "args ''dataset'' = Some (PStr ''camvid'')"
  shows "w \<noteq> [] \<and> last w = fzero B"
  using assms unfolding handle_unlabelled_def
  by (auto simp: getattr_def py_lower_def lower_char_def snd_thn split: option.splits if_splits)

lemma prepare_training_events:
  assumes "\<And>n. P (LoadData n)" and "\<And>n. P (WeighingPass n)"
    and "\<And>cw0 cw. snd (handle_unlabelled B args cw0 :: ('m, 'f, 'f list option) run) = Inr cw
           \<Longrightarrow> P (PrintClassWeights cw)"
  shows "events_all P (prepare_training E B args c mode :: ('m, 'f, _) run)"
  unfolding prepare_training_def
  by (auto intro!: events_all_thn compute_class_weights_events handle_unlabelled_events assms)

lemma prepare_test_events:
  assumes "\<And>n. P (LoadData n)"
  shows "events_all P (prepare_test E args c mode)"
  unfolding prepare_test_def
  by (auto intro!: events_all_thn assms)

section \<open>main on a namespace of the parser\<close>

lemmas run_defs =
  main_def main_body_def get_arguments_def parse_args_def take_action_def parser_arguments_def
  get_value_def defaults_def getattr_def select_dataset_def py_lower_def lower_char_def
  prepare_training_def prepare_test_def compute_class_weights_def handle_unlabelled_def
  truthy_def checkpoint_path_def add_str_def os_path_join_def join2_def resume_model_def
  bound_num_classes_def train_and_save_def as_int_def as_float_def train_def
  fit_generator_def train_lr_decay_def run_test_def test_def
  ret_def raise_def lift_def emit_def thn_Inl thn_Inr

lemma checkpoint_path_unset:
  "args ''checkpoint_dir'' = None \<Longrightarrow> checkpoint_path args = Inl (AttributeError ''checkpoint_dir'')"
  by (simp add: checkpoint_path_def getattr_def)

lemma main_body_unset:
  assumes "args ''checkpoint_dir'' = None"
  shows "main_body E B args =
     thn (select_dataset E args) (\<lambda>generator_class.
     thn (lift (getattr args ''mode'')) (\<lambda>m.
     thn (lift (py_lower m)) (\<lambda>mode.
     thn (prepare_training E B args generator_class mode) (\<lambda>training.
     thn (prepare_test E args generator_class mode) (\<lambda>testing.
     raise (AttributeError ''checkpoint_dir''))))))"
  by (simp add: main_body_def checkpoint_path_unset[where args=args, OF assms])

lemma main_body_unset_events:
  assumes "args ''checkpoint_dir'' = None"
    and "\<And>n. P (LoadData n)" and "\<And>n. P (WeighingPass n)"
    and "\<And>cw0 cw. snd (handle_unlabelled B args cw0 :: ('m, 'f, 'f list option) run) = Inr cw
           \<Longrightarrow> P (PrintClassWeights cw)"
  shows "events_all P (main_body E B args :: ('m, 'f, unit) run)"
  unfolding main_body_unset[where args=args, OF assms(1)]
  by (intro events_all_thn select_dataset_events prepare_training_events prepare_test_events
      events_all_simps assms(2,3,4))

lemma main_body_unset_fails:
  assumes "args ''checkpoint_dir'' = None"
  shows "fails (main_body E B args)"
  unfolding main_body_unset[where args=args, OF assms]
  by (intro fails_thnI fails_simps)

lemma thn_assoc: "thn (thn m f) g = thn m (\<lambda>a. thn (f a) g)"
  by (cases m) (auto simp: thn_def split: sum.splits prod.splits)

lemma main_body_unset_before:
  assumes "args ''checkpoint_dir'' = None"
  shows "main_body E B args =
     thn (before_checkpoint E B args) (\<lambda>_. raise (AttributeError ''checkpoint_dir''))"
  by (simp add: main_body_unset[where args=args, OF assms] before_checkpoint_def thn_assoc)

lemma snd_thn_raise:
  "snd (thn m (\<lambda>_. raise e)) = (case snd m of Inl e' \<Rightarrow> Inl e' | Inr a \<Rightarrow> Inl e)"
  by (simp add: snd_thn split: sum.splits)

text \<open>
  C1, as the code has it. A namespace that \<^verbatim>\<open>get_arguments\<close> returns defines \<^verbatim>\<open>save_dir\<close>
  and defines none of \<^verbatim>\<open>checkpoint_dir\<close>, \<^verbatim>\<open>resume\<close> and \<^verbatim>\<open>initial_epoch\<close>: reading any of
  the three raises \<^verbatim>\<open>AttributeError\<close>. No run of \<^verbatim>\<open>main\<close> returns normally, and none loads,
  builds, trains, saves or tests a model. A run of \<^verbatim>\<open>main\<close> is lines 112-184 followed by
  the \<^verbatim>\<open>AttributeError\<close> on \<^verbatim>\<open>args.checkpoint_dir\<close> of line 186: when those lines complete,
  that is the exception of the run; when one of them raises (a data generator, a weight
  pass), the run ends there, in that exception.
\<close>

theorem main_stops_at_checkpoint_dir:
  fixes E :: "('g, 'm, 'f) collaborators"
  assumes "get_arguments B argv = Inr args"
  shows "(\<exists>v. getattr args ''save_dir'' = Inr v)
    \<and> getattr args ''checkpoint_dir'' = Inl (AttributeError ''checkpoint_dir'')
    \<and> getattr args ''resume'' = Inl (AttributeError ''resume'')
    \<and> getattr args ''initial_epoch'' = Inl (AttributeError ''initial_epoch'')
    \<and> (\<forall>ev \<in> set (fst (main E B argv)). \<not> model_event ev)
    \<and> fails (main E B argv)
    \<and> main E B argv =
        thn (before_checkpoint E B args) (\<lambda>_. raise (AttributeError ''checkpoint_dir''))
    \<and> (\<not> fails (before_checkpoint E B args) \<longrightarrow>
         snd (main E B argv) = Inl (AttributeError ''checkpoint_dir''))
    \<and> (\<forall>e. snd (before_checkpoint E B args) = Inl e \<longrightarrow> snd (main E B argv) = Inl e)"
proof -
  note v = get_arguments_value[OF assms]
  have m: "main E B argv = main_body E B args" using assms by (simp add: main_def)
  have "events_all (\<lambda>ev. \<not> model_event ev) (main_body E B args)"
    by (rule main_body_unset_events[where args=args, OF v(8)]) (simp_all add: model_event_def)
  then have quiet: "\<forall>ev \<in> set (fst (main E B argv)). \<not> model_event ev"
    unfolding m by (auto dest: events_allD)
  have f: "fails (main E B argv)"
    unfolding m by (rule main_body_unset_fails[where args=args, OF v(8)])
  have b: "main E B argv =
      thn (before_checkpoint E B args) (\<lambda>_. raise (AttributeError ''checkpoint_dir''))"
    unfolding m by (rule main_body_unset_before[where args=args, OF v(8)])
  have r: "\<not> fails (before_checkpoint E B args) \<longrightarrow>
      snd (main E B argv) = Inl (AttributeError ''checkpoint_dir'')"
    unfolding b by (simp add: snd_thn_raise fails_def split: sum.splits)
  have e: "\<forall>e. snd (before_checkpoint E B args) = Inl e \<longrightarrow> snd (main E B argv) = Inl e"
    unfolding b by (simp add: snd_thn_raise)
  show ?thesis using v(8,9,10,11) quiet f b r e by (auto simp: getattr_def)
qed

theorem main_stops_at_checkpoint_dir_witness:
  "get_arguments sample_builtins [] = Inr (defaults (parser_arguments sample_builtins))
   \<and> \<not> fails (before_checkpoint sample_collaborators sample_builtins
         (defaults (parser_arguments sample_builtins)))
   \<and> list_all (\<lambda>ev. \<not> model_event ev) (fst (main sample_collaborators sample_builtins []))
   \<and> snd (main sample_collaborators sample_builtins []) = Inl (AttributeError ''checkpoint_dir'')"
proof -
  have g: "get_arguments sample_builtins [] = Inr (defaults (parser_arguments sample_builtins))"
    by (simp add: get_arguments_def parse_args_def)
  have p: "\<not> fails (before_checkpoint sample_collaborators sample_builtins
         (defaults (parser_arguments sample_builtins)))"
    by (simp add: before_checkpoint_def run_defs fails_def sample_collaborators_def
        sample_builtins_def)
  note T = main_stops_at_checkpoint_dir[OF g, of sample_collaborators]
  from T have q: "\<forall>ev \<in> set (fst (main sample_collaborators sample_builtins [])). \<not> model_event ev"
    by blast
  from T p have r: "snd (main sample_collaborators sample_builtins [])
      = Inl (AttributeError ''checkpoint_dir'')"
    by blast
  show ?thesis using g p q r by (simp add: list_all_iff)
qed

text \<open>
  C1 as stated fails: with a dataset directory that cannot be read, the run of \<^verbatim>\<open>main\<close> on
  the empty command line ends at line 125, in the generator's exception, and never comes
  to the checkpoint path.
\<close>

theorem unreadable_dataset_preempts_checkpoint_dir:
  "main raising_loader sample_builtins [] = ([LoadData ''train''], Inl (Raised ''OSError''))
   \<and> snd (main raising_loader sample_builtins []) \<noteq> Inl (AttributeError ''checkpoint_dir'')"
  by (simp add: run_defs raising_loader_def sample_collaborators_def sample_builtins_def)

text \<open>
  C4. On every run of \<^verbatim>\<open>main\<close> whose \<^verbatim>\<open>ignore_unlabelled\<close> is true, a class-weight vector
  that reaches line 167 (the vector that is handed to training) is not empty and its last
  entry is the float zero, whichever pass produced it. With no weighing (\<^verbatim>\<open>none\<close>) there
  is no vector.
\<close>

theorem unlabelled_weight_zeroed:
  assumes "get_arguments B argv = Inr args"
    and "getattr args ''ignore_unlabelled'' = Inr v" and "truthy B v"
    and "PrintClassWeights (Some w) \<in> set (fst (main E B argv))"
  shows "w \<noteq> [] \<and> last w = fzero B"
proof -
  note a = get_arguments_value[OF assms(1)]
  have m: "main E B argv = main_body E B args" using assms(1) by (simp add: main_def)
  have iv: "args ''ignore_unlabelled'' = Some v"
    using assms(2) by (simp add: getattr_def split: option.splits)
  let ?P = "\<lambda>ev. \<forall>w. ev = PrintClassWeights (Some w) \<longrightarrow> w \<noteq> [] \<and> last w = fzero B"
  have "events_all ?P (main_body E B args)"
  proof (rule main_body_unset_events[where args=args, OF a(8)])
    fix cw0 cw
    assume "snd (handle_unlabelled B args cw0 :: ('b, 'a, 'a list option) run) = Inr cw"
    then show "?P (PrintClassWeights cw)"
      using handle_unlabelled_zero[where args=args and cw=cw0, OF _ iv assms(3) a(2)] by auto
  qed simp_all
  then show ?thesis using assms(4) unfolding m by (auto dest: events_allD)
qed

theorem unlabelled_weight_zeroed_witness:
  "PrintClassWeights (Some [7, 8, 0]) \<in> set (fst (main sample_collaborators sample_builtins [(''--weighing'', ''mfb'')]))
   \<and> last [7, 8, 0 :: real] = fzero sample_builtins"
proof -
  let ?argv = "[(''--weighing'', ''mfb'')]"
  obtain args where g: "get_arguments sample_builtins ?argv = Inr args"
    by (simp add: get_arguments_def parse_args_def take_action_def parser_arguments_def get_value_def)
  have i: "getattr args ''ignore_unlabelled'' = Inr (PBool True)"
    using g by (auto simp: get_arguments_def parse_args_def take_action_def parser_arguments_def
        get_value_def defaults_def getattr_def)
  have t: "truthy sample_builtins (PBool True)" by (simp add: truthy_def)
  have e: "PrintClassWeights (Some [7, 8, 0]) \<in> set (fst (main sample_collaborators sample_builtins ?argv))"
    by (simp add: run_defs sample_collaborators_def sample_builtins_def)
  from unlabelled_weight_zeroed[OF g i t e] e show ?thesis by simp
qed

section \<open>The learning-rate schedule of train\<close>

lemma train_lr_decay_ignores_lr:
  "train_lr_decay B lr ld lde i cur = train_lr_decay B lr ld lde i cur'"
  by (simp add: train_lr_decay_def)

lemma train_lr_decay_some_lr:
  "(\<exists>c. train_lr_decay B lr ld lde i c = Inr v) = (train_lr_decay B lr ld lde i c0 = Inr v)"
  by (simp add: train_lr_decay_def)

lemma train_lr_decay_staircase:
  assumes "\<And>a b. fmul B a b = fmul B b a"
  shows "train_lr_decay B lr ld lde i cur = staircase_lr B lr ld lde i"
  by (simp add: train_lr_decay_def staircase_lr_def assms split: sum.splits)

lemma epoch_log_simps [simp]:
  "epoch_log [] = []"
  "epoch_log (p # ps) = SetLR (fst p) (snd p) # Epoch (fst p) (snd p) # epoch_log ps"
  by (simp_all add: epoch_log_def)

lemma fit_loop_Cons:
  "fit_loop E s cw tg vg (i # is) m cur =
     (case s i cur of
        Inl e \<Rightarrow> ([], Inl e)
      | Inr lr' \<Rightarrow>
          (case fit_epoch E m lr' i cw tg vg of
             Inl e \<Rightarrow> ([SetLR i lr', Epoch i lr'], Inl e)
           | Inr m' \<Rightarrow>
               (SetLR i lr' # Epoch i lr' # fst (fit_loop E s cw tg vg is m' lr'),
                snd (fit_loop E s cw tg vg is m' lr'))))"
  by (simp add: thn_emit raise_def split: sum.splits)

lemma fit_loop_log:
  "\<exists>ps. fst (fit_loop E s cw tg vg is m cur) = epoch_log ps
      \<and> prefix (map fst ps) is
      \<and> list_all (\<lambda>p. \<exists>c. s (fst p) c = Inr (snd p)) ps
      \<and> (\<not> fails (fit_loop E s cw tg vg is m cur) \<longrightarrow> map fst ps = is)"
proof (induction "is" arbitrary: m cur)
  case Nil
  show ?case by (rule exI[of _ "[]"]) simp
next
  case (Cons i "is")
  show ?case
  proof (cases "s i cur")
    case (Inl e)
    show ?thesis by (rule exI[of _ "[]"]) (simp add: fit_loop_Cons Inl fails_def del: fit_loop.simps)
  next
    case (Inr lr')
    show ?thesis
    proof (cases "fit_epoch E m lr' i cw tg vg")
      case (Inl e)
      show ?thesis
        by (rule exI[of _ "[(i, lr')]"])
          (use Inr in \<open>auto simp: fit_loop_Cons Inl fails_def simp del: fit_loop.simps\<close>)
    next
      case r: (Inr m')
      from Cons.IH[of m' lr'] obtain ps where
        ps: "fst (fit_loop E s cw tg vg is m' lr') = epoch_log ps"
          "prefix (map fst ps) is"
          "list_all (\<lambda>p. \<exists>c. s (fst p) c = Inr (snd p)) ps"
          "\<not> fails (fit_loop E s cw tg vg is m' lr') \<longrightarrow> map fst ps = is"
        by blast
      show ?thesis
        by (rule exI[of _ "(i, lr') # ps"]) (use ps Inr in \<open>auto simp: fit_loop_Cons r fails_def simp del: fit_loop.simps\<close>)
    qed
  qed
qed

lemma schedule_event_epoch_log: "filter schedule_event (epoch_log ps) = epoch_log ps"
  by (induction ps) (simp_all add: schedule_event_def)

lemma epoch_log_SetLR: "SetLR i v \<in> set (epoch_log ps) \<longleftrightarrow> (i, v) \<in> set ps"
  by (induction ps) auto

lemma epoch_log_Epoch: "Epoch i v \<in> set (epoch_log ps) \<longleftrightarrow> (i, v) \<in> set ps"
  by (induction ps) auto

lemma epoch_log_other:
  "ev \<in> set (epoch_log ps) \<Longrightarrow> schedule_event ev"
  by (induction ps) (auto simp: schedule_event_def)

lemma determined_log:
  "map fst ps = map fst qs \<Longrightarrow> list_all (\<lambda>p. f (fst p) = Inr (snd p)) ps \<Longrightarrow>
   list_all (\<lambda>p. f (fst p) = Inr (snd p)) qs \<Longrightarrow> ps = qs"
proof (induction ps arbitrary: qs)
  case Nil
  then show ?case by simp
next
  case (Cons p ps)
  then obtain q qs' where q: "qs = q # qs'" by (cases qs) auto
  with Cons.prems have "fst p = fst q" "snd p = snd q" by auto
  then have "p = q" by (simp add: prod_eq_iff)
  moreover have "ps = qs'" using Cons.IH[of qs'] Cons.prems q by simp
  ultimately show ?case using q by simp
qed

subsection \<open>The log of train\<close>

lemma train_log:
  fixes E :: "('g, 'm, 'f) collaborators"
  shows "\<exists>pre ps.
      fst (train E B epochs k tg vg cw lr ld lde w vb logdir ckpt) = pre @ epoch_log ps
      \<and> list_all (\<lambda>ev. \<not> schedule_event ev) pre
      \<and> prefix (map fst ps) [k..epochs - 1]
      \<and> list_all (\<lambda>p. train_lr_decay B lr ld lde (fst p) c0 = Inr (snd p)) ps
      \<and> (\<not> fails (train E B epochs k tg vg cw lr ld lde w vb logdir ckpt) \<longrightarrow>
           map fst ps = [k..epochs - 1])"
proof -
  let ?s = "train_lr_decay B lr ld lde"
  have loop: "\<exists>ps. fst (fit_loop E ?s cw tg vg is m cur) = epoch_log ps
      \<and> prefix (map fst ps) is
      \<and> list_all (\<lambda>p. ?s (fst p) c0 = Inr (snd p)) ps
      \<and> (\<not> fails (fit_loop E ?s cw tg vg is m cur) \<longrightarrow> map fst ps = is)" for "is" m cur
  proof -
    from fit_loop_log[of E ?s cw tg vg "is" m cur] obtain ps where
      ps: "fst (fit_loop E ?s cw tg vg is m cur) = epoch_log ps"
        "prefix (map fst ps) is"
        "list_all (\<lambda>p. \<exists>c. ?s (fst p) c = Inr (snd p)) ps"
        "\<not> fails (fit_loop E ?s cw tg vg is m cur) \<longrightarrow> map fst ps = is"
      by blast
    have "list_all (\<lambda>p. ?s (fst p) c0 = Inr (snd p)) ps"
      using ps(3) by (simp add: train_lr_decay_some_lr[where ?c0.0=c0])
    with ps show ?thesis by blast
  qed
  have gen: "\<exists>pre ps.
      fst (fit_generator E m lr ?s tg cw epochs k vg) = pre @ epoch_log ps
      \<and> list_all (\<lambda>ev. \<not> schedule_event ev) pre
      \<and> prefix (map fst ps) [k..epochs - 1]
      \<and> list_all (\<lambda>p. ?s (fst p) c0 = Inr (snd p)) ps
      \<and> (\<not> fails (fit_generator E m lr ?s tg cw epochs k vg) \<longrightarrow> map fst ps = [k..epochs - 1])"
    for m
  proof -
    from loop[of "[k..epochs - 1]" m lr] obtain ps where
      ps: "fst (fit_loop E ?s cw tg vg [k..epochs - 1] m lr) = epoch_log ps"
        "prefix (map fst ps) [k..epochs - 1]"
        "list_all (\<lambda>p. ?s (fst p) c0 = Inr (snd p)) ps"
        "\<not> fails (fit_loop E ?s cw tg vg [k..epochs - 1] m lr) \<longrightarrow> map fst ps = [k..epochs - 1]"
      by blast
    show ?thesis
      apply (rule exI[of _ "[Fit m cw epochs k]"])
      apply (rule exI[of _ ps])
      using ps by (simp add: fit_generator_def thn_emit schedule_event_def fails_def)
  qed
  show ?thesis
  proof (cases "first_batch E tg")
    case (Inl e)
    show ?thesis
      apply (rule exI[of _ "[]"])
      apply (rule exI[of _ "[]"])
      by (simp add: train_def Inl fails_def)
  next
    case b: (Inr batch)
    show ?thesis
    proof (cases ckpt)
      case (Some m)
      from gen[of m] show ?thesis by (simp add: train_def b Some)
    next
      case None
      show ?thesis
      proof (cases "LinkNet E (snd batch) (fst batch)")
        case (Inl e)
        show ?thesis
          apply (rule exI[of _ "[BuildModel (snd batch)]"])
          apply (rule exI[of _ "[]"])
          by (simp add: train_def b None Inl thn_emit fails_def schedule_event_def raise_def thn_Inl)
      next
        case (Inr m)
        from gen[of m] obtain pre ps where
          g: "fst (fit_generator E m lr ?s tg cw epochs k vg) = pre @ epoch_log ps"
            "list_all (\<lambda>ev. \<not> schedule_event ev) pre"
            "prefix (map fst ps) [k..epochs - 1]"
            "list_all (\<lambda>p. ?s (fst p) c0 = Inr (snd p)) ps"
            "\<not> fails (fit_generator E m lr ?s tg cw epochs k vg) \<longrightarrow> map fst ps = [k..epochs - 1]"
          by blast
        show ?thesis
          apply (rule exI[of _ "BuildModel (snd batch) # pre"])
          apply (rule exI[of _ ps])
          using g by (simp add: train_def b None Inr thn_emit thn_Inr fails_def schedule_event_def)
      qed
    qed
  qed
qed

lemma SetLR_in_log:
  assumes "list_all (\<lambda>ev. \<not> schedule_event ev) pre"
  shows "SetLR i v \<in> set (pre @ epoch_log ps) \<longleftrightarrow> (i, v) \<in> set ps"
proof -
  have "SetLR i v \<notin> set pre"
    using assms by (auto simp: list_all_iff schedule_event_def)
  then show ?thesis by (simp add: epoch_log_SetLR)
qed

lemma filter_log:
  assumes "list_all (\<lambda>ev. \<not> schedule_event ev) pre"
  shows "filter schedule_event (pre @ epoch_log ps) = epoch_log ps"
proof -
  have "filter schedule_event pre = []"
    using assms by (simp add: filter_empty_conv list_all_iff)
  then show ?thesis by (simp add: schedule_event_epoch_log)
qed


lemmas train_eval =
  train_def fit_generator_def train_lr_decay_def ret_def raise_def lift_def emit_def thn_Inl thn_Inr
  sample_collaborators_def sample_builtins_def


text \<open>
  C3. A run of \<^verbatim>\<open>train\<close> resumed from a checkpoint model at \<open>initial_epoch = k\<close> and a run
  with a fresh model started at epoch \<open>k\<close>, with the same \<open>learning_rate\<close>, \<open>lr_decay\<close>
  and \<open>lr_decay_epochs\<close>, set the same rate at every epoch that both reach; when both
  return, their schedule events are the same list. The schedule function does not depend
  on the optimizer's current rate, and the rate set at epoch \<open>k\<close> is
  \<^verbatim>\<open>learning_rate * lr_decay ** (k // lr_decay_epochs)\<close> in either run.
\<close>

theorem resumed_schedule_equals_fresh:
  fixes E E' :: "('g, 'm, 'f) collaborators"
  assumes "resumed = train E B epochs k tg vg cw lr ld lde w vb logdir (Some m)"
    and "fresh = train E' B epochs k tg' vg' cw' lr ld lde w' vb' logdir' None"
  shows "(SetLR i v \<in> set (fst resumed) \<longrightarrow> SetLR i v' \<in> set (fst fresh) \<longrightarrow> v = v')
    \<and> (\<not> fails resumed \<longrightarrow> \<not> fails fresh \<longrightarrow>
         filter schedule_event (fst resumed) = filter schedule_event (fst fresh))
    \<and> (\<forall>cur cur'. train_lr_decay B lr ld lde i cur = train_lr_decay B lr ld lde i cur')
    \<and> ((\<forall>a b. fmul B a b = fmul B b a) \<longrightarrow>
         SetLR k v \<in> set (fst resumed) \<union> set (fst fresh) \<longrightarrow>
         staircase_lr B lr ld lde k = Inr v)"
proof -
  let ?f = "\<lambda>j. train_lr_decay B lr ld lde j lr"
  from train_log[of E B epochs k tg vg cw lr ld lde w vb logdir "Some m" lr] assms(1)
  obtain pre1 ps1 where r:
    "fst resumed = pre1 @ epoch_log ps1"
    "list_all (\<lambda>ev. \<not> schedule_event ev) pre1"
    "list_all (\<lambda>p. ?f (fst p) = Inr (snd p)) ps1"
    "\<not> fails resumed \<longrightarrow> map fst ps1 = [k..epochs - 1]"
    by auto
  from train_log[of E' B epochs k tg' vg' cw' lr ld lde w' vb' logdir' None lr] assms(2)
  obtain pre2 ps2 where f:
    "fst fresh = pre2 @ epoch_log ps2"
    "list_all (\<lambda>ev. \<not> schedule_event ev) pre2"
    "list_all (\<lambda>p. ?f (fst p) = Inr (snd p)) ps2"
    "\<not> fails fresh \<longrightarrow> map fst ps2 = [k..epochs - 1]"
    by auto
  have in1: "?f j = Inr x" if "SetLR j x \<in> set (fst resumed)" for j x
  proof -
    have "(j, x) \<in> set ps1" using that SetLR_in_log[OF r(2), of j x ps1] by (simp only: r(1))
    then show ?thesis using r(3) by (auto simp: list_all_iff)
  qed
  have in2: "?f j = Inr x" if "SetLR j x \<in> set (fst fresh)" for j x
  proof -
    have "(j, x) \<in> set ps2" using that SetLR_in_log[OF f(2), of j x ps2] by (simp only: f(1))
    then show ?thesis using f(3) by (auto simp: list_all_iff)
  qed
  have a: "SetLR i v \<in> set (fst resumed) \<longrightarrow> SetLR i v' \<in> set (fst fresh) \<longrightarrow> v = v'"
    using in1[of i v] in2[of i v'] by auto
  have b: "filter schedule_event (fst resumed) = filter schedule_event (fst fresh)"
    if "\<not> fails resumed" "\<not> fails fresh"
  proof -
    have "map fst ps1 = map fst ps2" using r(4) f(4) that by simp
    then have "ps1 = ps2" using r(3) f(3) by (rule determined_log)
    moreover have "filter schedule_event (fst resumed) = epoch_log ps1"
      unfolding r(1) by (rule filter_log[OF r(2)])
    moreover have "filter schedule_event (fst fresh) = epoch_log ps2"
      unfolding f(1) by (rule filter_log[OF f(2)])
    ultimately show ?thesis by simp
  qed
  have c: "\<forall>cur cur'. train_lr_decay B lr ld lde i cur = train_lr_decay B lr ld lde i cur'"
    by (simp add: train_lr_decay_def)
  have d: "staircase_lr B lr ld lde k = Inr v"
    if "\<forall>a b. fmul B a b = fmul B b a" "SetLR k v \<in> set (fst resumed) \<union> set (fst fresh)"
  proof -
    have "?f k = Inr v" using that(2) in1[of k v] in2[of k v] by auto
    then show ?thesis using train_lr_decay_staircase[of B lr ld lde k lr] that(1) by simp
  qed
  show ?thesis using a b c d by blast
qed

theorem resumed_schedule_equals_fresh_witness:
  "SetLR 2 (1 / 20000) \<in> set (fst (train sample_collaborators sample_builtins 4 2 ''train'' ''val''
       None (1 / 2000) (1 / 10) 2 (PInt 4) (PInt 1) ''logs'' (Some 40)))
   \<and> SetLR 2 (1 / 20000) \<in> set (fst (train sample_collaborators sample_builtins 4 2 ''train'' ''val''
       None (1 / 2000) (1 / 10) 2 (PInt 4) (PInt 1) ''logs'' None))
   \<and> filter schedule_event (fst (train sample_collaborators sample_builtins 4 2 ''train'' ''val''
       None (1 / 2000) (1 / 10) 2 (PInt 4) (PInt 1) ''logs'' (Some 40)))
     = filter schedule_event (fst (train sample_collaborators sample_builtins 4 2 ''train'' ''val''
       None (1 / 2000) (1 / 10) 2 (PInt 4) (PInt 1) ''logs'' None))
   \<and> staircase_lr sample_builtins (1 / 2000) (1 / 10) 2 2 = Inr (1 / 20000)"
proof -
  let ?r = "train sample_collaborators sample_builtins 4 2 ''train'' ''val''
       None (1 / 2000) (1 / 10) 2 (PInt 4) (PInt 1) ''logs'' (Some 40)"
  let ?f = "train sample_collaborators sample_builtins 4 2 ''train'' ''val''
       None (1 / 2000) (1 / 10) 2 (PInt 4) (PInt 1) ''logs'' None"
  have r: "fst ?r = [Fit 40 None 4 2, SetLR 2 (1 / 20000), Epoch 2 (1 / 20000),
      SetLR 3 (1 / 20000), Epoch 3 (1 / 20000)]" "\<not> fails ?r"
    by (simp_all add: train_eval fails_def upto_rec1)
  have f: "fst ?f = [BuildModel 3, Fit 0 None 4 2, SetLR 2 (1 / 20000), Epoch 2 (1 / 20000),
      SetLR 3 (1 / 20000), Epoch 3 (1 / 20000)]" "\<not> fails ?f"
    by (simp_all add: train_eval fails_def upto_rec1)
  have c: "\<forall>a b. fmul sample_builtins a b = fmul sample_builtins b (a :: real)"
    by (simp add: sample_builtins_def)
  have i1: "SetLR 2 (1 / 20000) \<in> set (fst ?r)" by (simp add: r(1))
  have i2: "SetLR 2 (1 / 20000) \<in> set (fst ?f)" by (simp add: f(1))
  from resumed_schedule_equals_fresh[where resumed = "?r" and fresh = "?f" and i = 2
      and v = "1 / 20000" and v' = "1 / 20000", OF refl refl]
  show ?thesis using r(2) f(2) c i1 i2 by blast
qed

section \<open>main past the checkpoint path: resume, train and save\<close>

lemma fit_loop_events:
  assumes "ev \<in> set (fst (fit_loop E s cw tg vg is m cur))"
  shows "\<exists>i v. i \<in> set is \<and> (ev = SetLR i v \<or> ev = Epoch i v)"
proof -
  from fit_loop_log[of E s cw tg vg "is" m cur] obtain ps where
    ps: "fst (fit_loop E s cw tg vg is m cur) = epoch_log ps" "prefix (map fst ps) is"
    by blast
  from assms ps(1) have "ev \<in> set (epoch_log ps)" by simp
  then obtain p where p: "p \<in> set ps" "ev = SetLR (fst p) (snd p) \<or> ev = Epoch (fst p) (snd p)"
    by (auto simp: epoch_log_def)
  have "fst p \<in> set is" using p(1) set_mono_prefix[OF ps(2)] by auto
  then show ?thesis using p(2) by blast
qed

lemma train_resumed_events:
  assumes "ev \<in> set (fst (train E B epochs k tg vg cw lr ld lde w vb logdir (Some m)))"
  shows "ev = Fit m cw epochs k \<or> (\<exists>i v. k \<le> i \<and> i < epochs \<and> (ev = SetLR i v \<or> ev = Epoch i v))"
proof (cases "first_batch E tg")
  case (Inl e)
  then show ?thesis using assms by (simp add: train_def)
next
  case (Inr b)
  with assms have "ev = Fit m cw epochs k \<or>
      ev \<in> set (fst (fit_loop E (train_lr_decay B lr ld lde) cw tg vg [k..epochs - 1] m lr))"
    by (auto simp: train_def fit_generator_def thn_emit)
  then show ?thesis using fit_loop_events[of ev E _ cw tg vg "[k..epochs - 1]" m lr] by auto
qed

lemma train_fresh_only_without_checkpoint:
  "BuildModel n \<in> set (fst (train E B epochs k tg vg cw lr ld lde w vb logdir ckpt)) \<Longrightarrow> ckpt = None"
  using train_resumed_events[of "BuildModel n" E B epochs k tg vg cw lr ld lde w vb logdir]
  by (cases ckpt) auto

lemma resume_model_events:
  assumes "\<And>p ns. P (LoadModel p ns)"
  shows "events_all P (resume_model E B args path nc)"
  unfolding resume_model_def
  by (auto intro!: events_all_thn assms split: option.splits)

lemma resume_model_loaded:
  assumes "snd (resume_model E B args path nc) = Inr model"
    and "args ''resume'' = Some r" and "truthy B r"
  shows "\<exists>m. model = Some m \<and> load_model E path [''Conv2DTranspose'', ''mean_iou''] = Inr m"
  using assms unfolding resume_model_def
  by (auto simp: getattr_def snd_thn split: option.splits sum.splits)

lemma resume_model_fails:
  assumes "args ''resume'' = Some r" and "truthy B r"
    and "isl (load_model E path [''Conv2DTranspose'', ''mean_iou''])"
  shows "fails (resume_model E B args path nc)"
  using assms unfolding resume_model_def
  by (auto simp: getattr_def fails_thn isl_def split: option.splits)

lemma as_int_Inr: "as_int v = Inr k \<Longrightarrow> v = PInt k"
  by (auto simp: as_int_def split: pyval.splits)

lemma lift_Inr_iff [simp]: "snd (lift r :: ('m, 'f, 'a) run) = Inr a \<longleftrightarrow> r = Inr a"
  by simp

lemma train_and_save_resumed_events:
  fixes E :: "('g, 'm, 'f) collaborators"
  assumes "\<And>tg vg cw lr ld lde w vb logdir epochs k ev.
      getattr args ''initial_epoch'' = Inr (PInt k) \<Longrightarrow>
      ev \<in> set (fst (train E B epochs k tg vg cw lr ld lde w vb logdir (Some m))) \<Longrightarrow> P ev"
    and "\<And>t p. P (Save t p)"
  shows "events_all P (train_and_save E B args mode training path (Some m))"
proof -
  have tr: "events_all P (train E B epochs k tg vg cw lr ld lde w vb logdir (Some m))"
    if "getattr args ''initial_epoch'' = Inr (PInt k)"
    for tg vg cw lr ld lde w vb logdir epochs k
    by (rule events_allI) (rule assms(1)[OF that])
  show ?thesis
    unfolding train_and_save_def
    by (auto intro!: events_all_thn assms(2) tr dest!: as_int_Inr split: option.splits prod.splits)
qed

lemma run_test_events:
  assumes "\<And>m. P (Evaluate m)"
  shows "events_all P (run_test E args mode testing model)"
  unfolding run_test_def test_def
  by (auto intro!: events_all_thn assms split: option.splits)


lemma resume_model_load_event:
  assumes "LoadModel p ns \<in> set (fst (resume_model E B args path nc))"
  shows "snd (resume_model E B args path nc) =
     (case load_model E p ns of Inl e \<Rightarrow> Inl e | Inr m \<Rightarrow> Inr (Some m))"
  using assms unfolding resume_model_def
  by (auto simp: fst_thn snd_thn split: sum.splits option.splits if_splits)

lemma thn_event_split:
  assumes "ev \<in> set (fst (thn m f))" and "ev \<notin> set (fst m)"
  shows "\<exists>a. snd m = Inr a \<and> ev \<in> set (fst (f a)) \<and> snd (thn m f) = snd (f a)"
  using assms by (auto simp: fst_thn snd_thn split: sum.splits)

text \<open>
  C8. On a namespace whose \<^verbatim>\<open>resume\<close> is true, whenever \<^verbatim>\<open>main\<close> starts a fit, the model it
  fits is the one \<^verbatim>\<open>load_model\<close> returned for the checkpoint path with \<^verbatim>\<open>Conv2DTranspose\<close>
  and \<^verbatim>\<open>mean_iou\<close> registered by name, and the initial epoch of the fit is the value of
  \<^verbatim>\<open>args.initial_epoch\<close>, whatever model the checkpoint held: no fresh model is built, and
  no epoch before \<^verbatim>\<open>initial_epoch\<close> is scheduled.
\<close>

theorem resume_uses_checkpoint_and_initial_epoch:
  fixes E :: "('g, 'm, 'f) collaborators"
  assumes "getattr args ''resume'' = Inr r" and "truthy B r"
    and "Fit m cw epochs k \<in> set (fst (main_body E B args))"
  shows "(\<exists>path. checkpoint_path args = Inr path
            \<and> load_model E path [''Conv2DTranspose'', ''mean_iou''] = Inr m)
    \<and> getattr args ''initial_epoch'' = Inr (PInt k)
    \<and> (\<forall>n. BuildModel n \<notin> set (fst (main_body E B args)))
    \<and> (\<forall>i v. SetLR i v \<in> set (fst (main_body E B args)) \<longrightarrow> k \<le> i)"
proof -
  define P :: "('m, 'f) event \<Rightarrow> bool" where
    "P = (\<lambda>ev.
       (\<forall>m cw e k. ev = Fit m cw e k \<longrightarrow>
          (\<exists>path. checkpoint_path args = Inr path
             \<and> load_model E path [''Conv2DTranspose'', ''mean_iou''] = Inr m)
          \<and> getattr args ''initial_epoch'' = Inr (PInt k))
       \<and> (\<forall>n. ev \<noteq> BuildModel n)
       \<and> (\<forall>i v. ev = SetLR i v \<longrightarrow>
            (\<exists>k. getattr args ''initial_epoch'' = Inr (PInt k) \<and> k \<le> i)))"
  have r: "args ''resume'' = Some r"
    using assms(1) by (simp add: getattr_def split: option.splits)
  have ts: "events_all P (train_and_save E B args mode training path (Some m'))"
    if "checkpoint_path args = Inr path"
      and "load_model E path [''Conv2DTranspose'', ''mean_iou''] = Inr m'"
    for mode training path m'
  proof (rule train_and_save_resumed_events)
    fix tg vg cw lr ld lde w vb logdir epochs k ev
    assume k: "getattr args ''initial_epoch'' = Inr (PInt k)"
      and ev: "ev \<in> set (fst (train E B epochs k tg vg cw lr ld lde w vb logdir (Some m')))"
    from train_resumed_events[OF ev] show "P ev"
      using k that by (auto simp: P_def)
  next
    fix t p show "P (Save t p)" by (simp add: P_def)
  qed
  have "events_all P (main_body E B args)"
    unfolding main_body_def
    by (auto intro!: events_all_thn select_dataset_events prepare_training_events
        prepare_test_events resume_model_events run_test_events ts
        dest!: resume_model_loaded[where args=args, OF _ r assms(2)])
      (simp_all add: P_def)
  then have P: "P ev" if "ev \<in> set (fst (main_body E B args))" for ev
    using that by (rule events_allD)
  from P[OF assms(3)] have a: "(\<exists>path. checkpoint_path args = Inr path
            \<and> load_model E path [''Conv2DTranspose'', ''mean_iou''] = Inr m)"
    and b: "getattr args ''initial_epoch'' = Inr (PInt k)"
    by (simp_all add: P_def)
  have c: "\<forall>n. BuildModel n \<notin> set (fst (main_body E B args))"
    using P by (auto simp: P_def)
  have d: "\<forall>i v. SetLR i v \<in> set (fst (main_body E B args)) \<longrightarrow> k \<le> i"
  proof (intro allI impI)
    fix i v assume "SetLR i v \<in> set (fst (main_body E B args))"
    from P[OF this] obtain k' where "getattr args ''initial_epoch'' = Inr (PInt k')" "k' \<le> i"
      by (auto simp: P_def)
    with b show "k \<le> i" by simp
  qed
  show ?thesis using a b c d by blast
qed

text \<open>
  The sample run on a namespace that has the three attributes: the checkpoint is loaded,
  two epochs are trained from epoch 2, and the one save goes to the path built from
  \<^verbatim>\<open>checkpoint_dir\<close>, not from \<^verbatim>\<open>save_dir\<close>.
\<close>

lemma resume_run:
  "main_body sample_collaborators sample_builtins resume_namespace =
    ([LoadData ''train'', LoadData ''val'', WeighingPass ''enet'',
      PrintClassWeights (Some [7, 8, 0]),
      LoadModel ''ckpt/LinkNet/LinkNet.h5'' [''Conv2DTranspose'', ''mean_iou''],
      Fit 40 (Some [7, 8, 0]) 4 2, SetLR 2 (1 / 20000), Epoch 2 (1 / 20000),
      SetLR 3 (1 / 20000), Epoch 3 (1 / 20000), Save 42 ''ckpt/LinkNet/LinkNet.h5''],
     Inr ())"
  by (simp add: run_defs resume_namespace_def sample_collaborators_def sample_builtins_def
      upto_rec1)

theorem resume_uses_checkpoint_and_initial_epoch_witness:
  "Fit 40 (Some [7, 8, 0]) 4 2
     \<in> set (fst (main_body sample_collaborators sample_builtins resume_namespace))
   \<and> (\<exists>path. checkpoint_path resume_namespace = Inr path
         \<and> load_model sample_collaborators path [''Conv2DTranspose'', ''mean_iou''] = Inr 40)
   \<and> getattr resume_namespace ''initial_epoch'' = Inr (PInt 2)"
proof -
  have r: "getattr resume_namespace ''resume'' = Inr (PBool True)"
    by (simp add: getattr_def resume_namespace_def)
  have t: "truthy sample_builtins (PBool True)" by (simp add: truthy_def)
  have f: "Fit 40 (Some [7, 8, 0]) 4 2
     \<in> set (fst (main_body sample_collaborators sample_builtins resume_namespace))"
    by (simp add: resume_run)
  from resume_uses_checkpoint_and_initial_epoch[OF r t f] f show ?thesis by blast
qed

lemma resume_model_load_event_path:
  assumes "LoadModel p ns \<in> set (fst (resume_model E B args path nc))"
  shows "p = path \<and> ns = [''Conv2DTranspose'', ''mean_iou'']"
  using assms unfolding resume_model_def
  by (auto simp: fst_thn split: sum.splits option.splits if_splits)

text \<open>
  C9. On a namespace whose \<^verbatim>\<open>resume\<close> is true, when the loader raises on the checkpoint
  path (the checkpoint is missing or cannot be read; on other paths it may do anything),
  \<^verbatim>\<open>main\<close> ends in an exception, and in the loader's own exception once the loader was
  called; the run builds, fits, saves and tests no model. In \<^verbatim>\<open>train\<close>, a fresh LinkNet is
  built only when no checkpoint model was passed.
\<close>

theorem failed_resume_is_fatal:
  fixes E :: "('g, 'm, 'f) collaborators"
  assumes "getattr args ''resume'' = Inr r" and "truthy B r"
    and "\<And>path. checkpoint_path args = Inr path \<Longrightarrow>
           isl (load_model E path [''Conv2DTranspose'', ''mean_iou''])"
  shows "fails (main_body E B args)
    \<and> (\<forall>ev \<in> set (fst (main_body E B args)).
          model_event ev \<longrightarrow> (\<exists>p ns. ev = LoadModel p ns))
    \<and> (\<forall>p ns. LoadModel p ns \<in> set (fst (main_body E B args)) \<longrightarrow>
          (\<exists>e. load_model E p ns = Inl e \<and> snd (main_body E B args) = Inl e))
    \<and> (\<forall>n epochs k tg vg cw lr ld lde w vb logdir ckpt.
          BuildModel n \<in> set (fst (train E B epochs k tg vg cw lr ld lde w vb logdir ckpt)) \<longrightarrow>
          ckpt = None)"
proof -
  have r: "args ''resume'' = Some r"
    using assms(1) by (simp add: getattr_def split: option.splits)
  have rf: "fails (resume_model E B args path nc)" if "checkpoint_path args = Inr path"
    for path nc
    by (rule resume_model_fails[where args=args, OF r assms(2) assms(3)[OF that]])
  have nr: "snd (resume_model E B args path nc) \<noteq> Inr model"
    if "checkpoint_path args = Inr path" for path nc model
    using rf[OF that, of nc] by (auto simp: fails_def)
  have a: "fails (main_body E B args)"
    unfolding main_body_def
    by (intro fails_thnI) (simp add: nr)
  let ?Q = "\<lambda>ev :: ('m, 'f) event. model_event ev \<longrightarrow> (\<exists>p ns. ev = LoadModel p ns)"
  have "events_all ?Q (main_body E B args)"
    unfolding main_body_def
    by (auto intro!: events_all_thn select_dataset_events prepare_training_events
        prepare_test_events resume_model_events simp: nr model_event_def)
  then have b: "\<forall>ev \<in> set (fst (main_body E B args)). ?Q ev"
    by (auto dest: events_allD)
  have c: "\<exists>e. load_model E p ns = Inl e \<and> snd (main_body E B args) = Inl e"
    if l: "LoadModel p ns \<in> set (fst (main_body E B args))" for p ns
  proof -
    let ?N = "\<lambda>ev :: ('m, 'f) event. ev \<noteq> LoadModel p ns"
    have n1: "LoadModel p ns \<notin> set (fst (select_dataset E args :: ('m, 'f, _) run))"
      using events_allD[OF select_dataset_events[of ?N E args]] by blast
    have n2: "LoadModel p ns \<notin> set (fst (prepare_training E B args c mode :: ('m, 'f, _) run))"
      for c mode
      using events_allD[OF prepare_training_events[of ?N B args E c mode]] by blast
    have n3: "LoadModel p ns \<notin> set (fst (prepare_test E args c mode :: ('m, 'f, _) run))"
      for c mode
      using events_allD[OF prepare_test_events[of ?N E args c mode]] by blast
    from l obtain path nc e' where
      cp: "checkpoint_path args = Inr path"
      and ev: "LoadModel p ns \<in> set (fst (resume_model E B args path nc :: ('m, 'f, _) run))"
      and res: "snd (resume_model E B args path nc :: ('m, 'f, _) run) = Inl e'"
        "snd (main_body E B args) = Inl e'"
      unfolding main_body_def
      by (auto simp: fst_thn snd_thn n1 n2 n3 split: sum.splits dest: nr[THEN notE])
    from resume_model_load_event_path[OF ev]
    have pn: "p = path" "ns = [''Conv2DTranspose'', ''mean_iou'']" by simp_all
    obtain e where e: "load_model E p ns = Inl e"
      using assms(3)[OF cp] pn by (auto simp: isl_def)
    from resume_model_load_event[OF ev] e res show ?thesis by simp
  qed
  have d: "\<forall>n epochs k tg vg cw lr ld lde w vb logdir ckpt.
          BuildModel n \<in> set (fst (train E B epochs k tg vg cw lr ld lde w vb logdir ckpt)) \<longrightarrow>
          ckpt = None"
    by (intro allI impI) (rule train_fresh_only_without_checkpoint)
  show ?thesis using a b c d by blast
qed

theorem failed_resume_is_fatal_witness:
  "load_model no_checkpoint ''other/LinkNet/LinkNet.h5'' [''Conv2DTranspose'', ''mean_iou'']
      = Inr 40
   \<and> fails (main_body no_checkpoint sample_builtins resume_namespace)
   \<and> LoadModel ''ckpt/LinkNet/LinkNet.h5'' [''Conv2DTranspose'', ''mean_iou'']
        \<in> set (fst (main_body no_checkpoint sample_builtins resume_namespace))
   \<and> snd (main_body no_checkpoint sample_builtins resume_namespace) = Inl (Raised ''OSError'')"
proof -
  have r: "getattr resume_namespace ''resume'' = Inr (PBool True)"
    by (simp add: getattr_def resume_namespace_def)
  have t: "truthy sample_builtins (PBool True)" by (simp add: truthy_def)
  have cp: "checkpoint_path resume_namespace = Inr ''ckpt/LinkNet/LinkNet.h5''"
    by (simp add: run_defs resume_namespace_def)
  have l: "\<And>path. checkpoint_path resume_namespace = Inr path \<Longrightarrow>
      isl (load_model no_checkpoint path [''Conv2DTranspose'', ''mean_iou''])"
    by (simp add: cp no_checkpoint_def)
  have o: "load_model no_checkpoint ''other/LinkNet/LinkNet.h5'' [''Conv2DTranspose'', ''mean_iou'']
      = Inr 40"
    by (simp add: no_checkpoint_def)
  have e: "load_model no_checkpoint ''ckpt/LinkNet/LinkNet.h5'' [''Conv2DTranspose'', ''mean_iou'']
      = Inl (Raised ''OSError'')"
    by (simp add: no_checkpoint_def)
  have m: "LoadModel ''ckpt/LinkNet/LinkNet.h5'' [''Conv2DTranspose'', ''mean_iou'']
        \<in> set (fst (main_body no_checkpoint sample_builtins resume_namespace))"
    by (simp add: run_defs resume_namespace_def no_checkpoint_def sample_collaborators_def
        sample_builtins_def)
  from failed_resume_is_fatal[OF r t l] m e o show ?thesis by fastforce
qed

text \<open>
  C7. The run of \<^verbatim>\<open>main\<close> on the empty command line, where \<^verbatim>\<open>save_dir\<close> is
  \<^verbatim>\<open>checkpoints\<close> and \<^verbatim>\<open>name\<close> is \<^verbatim>\<open>LinkNet\<close>: the data is loaded and weighed, and line 186
  raises \<^verbatim>\<open>AttributeError\<close> on \<^verbatim>\<open>args.checkpoint_dir\<close>. Nothing is trained, and nothing is
  saved at \<^verbatim>\<open>checkpoints/LinkNet/LinkNet.h5\<close> or anywhere else.
\<close>

theorem default_run_saves_nothing:
  "main sample_collaborators sample_builtins [] =
     ([LoadData ''train'', LoadData ''val'', WeighingPass ''enet'',
       PrintClassWeights (Some [7, 8, 0])],
      Inl (AttributeError ''checkpoint_dir''))"
  by (simp add: run_defs sample_collaborators_def sample_builtins_def)

end
